theory Spec2Isabelle
  imports Main "HOL-Library.Word"
begin

section \<open>The plugin manager of the memory process file system (vmm/pluginmanager.c)\<close>

text \<open>
  The translation unit keeps a singly linked list of module entries, reachable from the
  global \<^verbatim>\<open>ctxVmm->pVmmVfsModuleList\<close>, and dispatches List/Read/Write/Notify/Close
  calls to function pointers stored in the entries. The model below follows the C text
  function by function.

  Conventions of the embedding:
  \<^item> a nullable pointer or handle is an \<open>option\<close>, \<open>None\<close> being \<^verbatim>\<open>NULL\<close>;
  \<^item> the linked list is the HOL list of its entries, head first, \<open>[]\<close> being the
    \<^verbatim>\<open>NULL\<close> list head;
  \<^item> a wide string is the list of its 16-bit code units as they lie in memory from the
    pointer on; the C library routines stop at the first zero unit (or at the end of the
    list, which stands for a terminator right behind it);
  \<^item> a function pointer is an address (\<open>nat\<close>); what the code behind an address returns
    is given by the environment record \<open>extern\<close>; every call through a function pointer
    and every library load, release, allocation and free is appended to a trace kept in
    the state, so that "is invoked exactly once" is a statement about the trace;
  \<^item> the constants of the headers that are not part of this translation unit
    (\<^verbatim>\<open>VMMDLL_PLUGIN_REGINFO_MAGIC\<close>, \<^verbatim>\<open>VMMDLL_PLUGIN_REGINFO_VERSION\<close>, the
    \<^verbatim>\<open>sizeof\<close> values, \<^verbatim>\<open>MAX_PATH\<close>, the length of the configuration field
    \<^verbatim>\<open>cfg.szPythonPath\<close>) are fields of \<open>extern\<close> as well;
  \<^item> the functions of a module are taken to return and not to call back into this file;
    an initializer is taken to return as well, and reaches this file only through the
    registration call-back it is handed (see \<open>init_prog\<close>);
  \<^item> logging (\<^verbatim>\<open>vmmprintf\<close>), the timing instrumentation (\<^verbatim>\<open>Statistics_CallStart\<close>,
    \<^verbatim>\<open>Statistics_CallEnd\<close>) and the critical section are not modelled: they do not take
    part in control flow;
  \<^item> a \<^verbatim>\<open>CHAR\<close> buffer holds the string before its terminator; \<^verbatim>\<open>strcpy_s\<close> and
    \<^verbatim>\<open>strcat_s\<close> on a buffer too small for the result call the invalid-parameter handler
    of the C runtime, which by default ends the process: the functions that use them return
    a sum, \<open>Inl\<close> being the end of the process in the state reached.
\<close>

subsection \<open>Basic types\<close>

type_synonym WCHAR = "16 word"
type_synonym WORD = "16 word"
type_synonym DWORD = "32 word"
type_synonym QWORD = "64 word"
type_synonym NTSTATUS = "32 word"
type_synonym BYTE = "8 word"
type_synonym HMODULE = "nat option"
type_synonym fnptr = nat
type_synonym wstring = "WCHAR list"
type_synonym file_list = "wstring list"

text \<open>Of the process structure only the field \<^verbatim>\<open>dwPID\<close> is read here.\<close>

record VMM_PROCESS =
  dwPID :: DWORD

text \<open>\<^verbatim>\<open>struct tdPLUGIN_LISTENTRY\<close>; the link \<^verbatim>\<open>FLink\<close> is the tail of the HOL list. The name
  buffer \<^verbatim>\<open>WCHAR wszModuleName[32]\<close> is kept as the string it holds.\<close>

record PLUGIN_LISTENTRY =
  hDLL :: HMODULE
  wszModuleName :: wstring
  fRootModule :: bool
  fProcessModule :: bool
  pfnList :: "fnptr option"
  pfnRead :: "fnptr option"
  pfnWrite :: "fnptr option"
  pfnNotify :: "fnptr option"
  pfnClose :: "fnptr option"

text \<open>\<^verbatim>\<open>VMMDLL_PLUGIN_CONTEXT\<close>, the fields written by \<^verbatim>\<open>PluginManager_ContextInitialize\<close>.\<close>

record VMMDLL_PLUGIN_CONTEXT =
  ctx_magic :: QWORD
  ctx_wVersion :: WORD
  ctx_wSize :: WORD
  ctx_dwPID :: DWORD
  ctx_pProcess :: "VMM_PROCESS option"
  ctx_wszModule :: wstring
  ctx_wszPath :: wstring

text \<open>\<^verbatim>\<open>VMMDLL_PLUGIN_REGINFO\<close>, the fields this file reads or writes. The nested structs
  \<^verbatim>\<open>reg_info\<close> and \<^verbatim>\<open>reg_fn\<close> are flattened with their name as prefix. The field
  \<^verbatim>\<open>pfnPluginManager_Register\<close> is the call-back to \<^verbatim>\<open>PluginManager_Register\<close>; in the model
  an initializer reaches it through the constructor \<open>CallRegister\<close> below.\<close>

record VMMDLL_PLUGIN_REGINFO =
  magic :: QWORD
  wVersion :: WORD
  wSize :: WORD
  tpMemoryModel :: DWORD
  tpSystem :: DWORD
  ri_hDLL :: HMODULE
  hReservedDllPython3X :: HMODULE
  hReservedDllPython3 :: HMODULE
  reg_info_wszModuleName :: wstring
  reg_info_fRootModule :: bool
  reg_info_fProcessModule :: bool
  reg_fn_pfnList :: "fnptr option"
  reg_fn_pfnRead :: "fnptr option"
  reg_fn_pfnWrite :: "fnptr option"
  reg_fn_pfnNotify :: "fnptr option"
  reg_fn_pfnClose :: "fnptr option"

text \<open>What an initializer (\<^verbatim>\<open>M_*_Initialize\<close>, or the exported \<^verbatim>\<open>InitializeVmmPlugin\<close> of a
  library) does as seen from this file: it returns, or it calls the registration call-back
  with some pointer and goes on depending on the boolean it gets back.\<close>

datatype init_prog =
    Return
  | CallRegister "VMMDLL_PLUGIN_REGINFO option" "bool \<Rightarrow> init_prog"

text \<open>The calls that leave this file, in the order they are made.\<close>

datatype event =
    EvList PLUGIN_LISTENTRY VMMDLL_PLUGIN_CONTEXT
  | EvRead PLUGIN_LISTENTRY VMMDLL_PLUGIN_CONTEXT DWORD QWORD
  | EvWrite PLUGIN_LISTENTRY VMMDLL_PLUGIN_CONTEXT "BYTE list" DWORD QWORD
  | EvNotify PLUGIN_LISTENTRY DWORD "nat option" DWORD
  | EvClose PLUGIN_LISTENTRY
  | EvLoadLibrary string HMODULE
  | EvFreeLibrary nat
  | EvLocalAlloc bool
  | EvLocalFree PLUGIN_LISTENTRY

text \<open>The global state this file works on: \<^verbatim>\<open>ctxVmm->pVmmVfsModuleList\<close>,
  \<^verbatim>\<open>ctxVmm->tpMemoryModel\<close>, \<^verbatim>\<open>ctxVmm->tpSystem\<close>, \<^verbatim>\<open>ctxMain->cfg.szPythonPath\<close>, the
  outcomes of the coming \<^verbatim>\<open>LocalAlloc\<close> calls (an empty list: every further one succeeds) and
  the trace.\<close>

record vmm_state =
  pVmmVfsModuleList :: "PLUGIN_LISTENTRY list"
  ctxVmm_tpMemoryModel :: DWORD
  ctxVmm_tpSystem :: DWORD
  szPythonPath :: string
  alloc_outcomes :: "bool list"
  trace :: "event list"

text \<open>Everything the file takes from outside: header constants, the operating system, the
  helper \<^verbatim>\<open>Util_GetPathDll\<close>, the built-in initializers of \<^verbatim>\<open>m_modules.h\<close> and the code behind
  the function pointers of the modules. A module's read or write sees the buffer and the
  cell \<^verbatim>\<open>*pcbRead\<close> as they are and leaves them as it likes.\<close>

record extern =
  VMMDLL_PLUGIN_REGINFO_MAGIC :: QWORD
  VMMDLL_PLUGIN_REGINFO_VERSION :: WORD
  sizeof_VMMDLL_PLUGIN_REGINFO :: WORD
  VMMDLL_PLUGIN_CONTEXT_MAGIC :: QWORD
  VMMDLL_PLUGIN_CONTEXT_VERSION :: WORD
  sizeof_VMMDLL_PLUGIN_CONTEXT :: WORD
  MAX_PATH :: nat
  countof_cfg_szPythonPath :: nat
  call_pfnList :: "fnptr \<Rightarrow> VMMDLL_PLUGIN_CONTEXT \<Rightarrow> file_list \<Rightarrow> bool \<times> file_list"
  call_pfnRead :: "fnptr \<Rightarrow> VMMDLL_PLUGIN_CONTEXT \<Rightarrow> BYTE list \<Rightarrow> DWORD \<Rightarrow> DWORD \<Rightarrow> QWORD
                     \<Rightarrow> NTSTATUS \<times> BYTE list \<times> DWORD"
  call_pfnWrite :: "fnptr \<Rightarrow> VMMDLL_PLUGIN_CONTEXT \<Rightarrow> BYTE list \<Rightarrow> DWORD \<Rightarrow> DWORD \<Rightarrow> QWORD
                     \<Rightarrow> NTSTATUS \<times> DWORD"
  os_LoadLibraryExA :: "string \<Rightarrow> DWORD \<Rightarrow> HMODULE"
  os_LoadLibraryA :: "string \<Rightarrow> HMODULE"
  os_GetProcAddress :: "nat \<Rightarrow> string \<Rightarrow> (VMMDLL_PLUGIN_REGINFO \<Rightarrow> init_prog) option"
  os_FindFiles :: "string \<Rightarrow> string list"
  Util_GetPathDll :: "HMODULE \<Rightarrow> string"
  M_Virt2Phys_Initialize :: "VMMDLL_PLUGIN_REGINFO \<Rightarrow> init_prog"
  M_Phys2Virt_Initialize :: "VMMDLL_PLUGIN_REGINFO \<Rightarrow> init_prog"
  M_LdrModules_Initialize :: "VMMDLL_PLUGIN_REGINFO \<Rightarrow> init_prog"
  M_MemMap_Initialize :: "VMMDLL_PLUGIN_REGINFO \<Rightarrow> init_prog"
  M_Status_Initialize :: "VMMDLL_PLUGIN_REGINFO \<Rightarrow> init_prog"
  M_WinReg_Initialize :: "VMMDLL_PLUGIN_REGINFO \<Rightarrow> init_prog"
  M_PEDump_Initialize :: "VMMDLL_PLUGIN_REGINFO \<Rightarrow> init_prog"
  M_HandleInfo_Initialize :: "VMMDLL_PLUGIN_REGINFO \<Rightarrow> init_prog"
  M_ThreadInfo_Initialize :: "VMMDLL_PLUGIN_REGINFO \<Rightarrow> init_prog"
  M_SysInfo_Initialize :: "VMMDLL_PLUGIN_REGINFO \<Rightarrow> init_prog"

subsection \<open>Status codes\<close>

text \<open>Modelled from the spec: the header \<^verbatim>\<open>vmmdll.h\<close> that defines the status macros is
  missing; the spec says that the status code distinguishes success from invalid-target.
  The values are those of the NTSTATUS codes the macro names stand for.\<close>

definition VMMDLL_STATUS_SUCCESS :: NTSTATUS where
  "VMMDLL_STATUS_SUCCESS = 0x00000000"

definition VMMDLL_STATUS_FILE_INVALID :: NTSTATUS where
  "VMMDLL_STATUS_FILE_INVALID = 0xC0000098"

subsection \<open>Wide strings of the C library\<close>

text \<open>The string held at a pointer: the code units before the first zero.\<close>

definition wcs :: "wstring \<Rightarrow> wstring" where
  "wcs w = takeWhile (\<lambda>c. c \<noteq> 0) w"

definition wcslen :: "wstring \<Rightarrow> nat" where
  "wcslen w = length (wcs w)"

text \<open>\<^verbatim>\<open>towlower\<close> in the "C" locale: only the letters A to Z are folded.\<close>

definition towlower :: "WCHAR \<Rightarrow> WCHAR" where
  "towlower c = (if 0x41 \<le> c \<and> c \<le> 0x5A then c + 0x20 else c)"

text \<open>\<^verbatim>\<open>_wcsicmp\<close>: compares the folded units pairwise up to the terminators; 0 on equality,
  otherwise the sign of the first difference.\<close>

fun wcsicmp_units :: "wstring \<Rightarrow> wstring \<Rightarrow> int" where
  "wcsicmp_units [] [] = 0"
| "wcsicmp_units [] (y # ys) = - 1"
| "wcsicmp_units (x # xs) [] = 1"
| "wcsicmp_units (x # xs) (y # ys) =
     (if towlower x = towlower y then wcsicmp_units xs ys
      else if towlower x < towlower y then - 1 else 1)"

definition wcsicmp :: "wstring \<Rightarrow> wstring \<Rightarrow> int" where
  "wcsicmp a b = wcsicmp_units (wcs a) (wcs b)"

subsection \<open>Operating system calls\<close>

definition record_event :: "event \<Rightarrow> vmm_state \<Rightarrow> vmm_state" where
  "record_event e s = s\<lparr>trace := trace s @ [e]\<rparr>"

definition LoadLibraryExA :: "extern \<Rightarrow> string \<Rightarrow> DWORD \<Rightarrow> vmm_state \<Rightarrow> HMODULE \<times> vmm_state" where
  "LoadLibraryExA E path flags s =
     (let h = os_LoadLibraryExA E path flags in (h, record_event (EvLoadLibrary path h) s))"

definition LoadLibraryA :: "extern \<Rightarrow> string \<Rightarrow> vmm_state \<Rightarrow> HMODULE \<times> vmm_state" where
  "LoadLibraryA E path s =
     (let h = os_LoadLibraryA E path in (h, record_event (EvLoadLibrary path h) s))"

definition FreeLibrary :: "nat \<Rightarrow> vmm_state \<Rightarrow> vmm_state" where
  "FreeLibrary h s = record_event (EvFreeLibrary h) s"

definition LocalAlloc :: "vmm_state \<Rightarrow> bool \<times> vmm_state" where
  "LocalAlloc s =
     (case alloc_outcomes s of
        [] \<Rightarrow> (True, record_event (EvLocalAlloc True) s)
      | ok # rest \<Rightarrow> (ok, record_event (EvLocalAlloc ok) (s\<lparr>alloc_outcomes := rest\<rparr>)))"

definition LocalFree :: "PLUGIN_LISTENTRY \<Rightarrow> vmm_state \<Rightarrow> vmm_state" where
  "LocalFree pm s = record_event (EvLocalFree pm) s"

subsection \<open>Dispatch\<close>

text \<open>\<^verbatim>\<open>PluginManager_ContextInitialize\<close>\<close>

definition PluginManager_ContextInitialize ::
  "extern \<Rightarrow> PLUGIN_LISTENTRY \<Rightarrow> VMM_PROCESS option \<Rightarrow> wstring \<Rightarrow> VMMDLL_PLUGIN_CONTEXT" where
  "PluginManager_ContextInitialize E pModule pProcess wszPath =
     \<lparr> ctx_magic = VMMDLL_PLUGIN_CONTEXT_MAGIC E,
       ctx_wVersion = VMMDLL_PLUGIN_CONTEXT_VERSION E,
       ctx_wSize = sizeof_VMMDLL_PLUGIN_CONTEXT E,
       ctx_dwPID = (case pProcess of Some p \<Rightarrow> dwPID p | None \<Rightarrow> - 1),
       ctx_pProcess = (if hDLL pModule \<noteq> None then None else pProcess),
       ctx_wszModule = wszModuleName pModule,
       ctx_wszPath = wszPath \<rparr>"

text \<open>The test at the head of the three dispatch loops, before its negation:
  \<^verbatim>\<open>(pProcess && pModule->fProcessModule) || (!pProcess && pModule->fRootModule)\<close>.\<close>

definition scope_matches :: "VMM_PROCESS option \<Rightarrow> PLUGIN_LISTENTRY \<Rightarrow> bool" where
  "scope_matches pProcess pModule \<longleftrightarrow>
     (pProcess \<noteq> None \<and> fProcessModule pModule) \<or> (pProcess = None \<and> fRootModule pModule)"

definition path_or_empty :: "wstring option \<Rightarrow> wstring" where
  "path_or_empty wszPath = (case wszPath of Some w \<Rightarrow> w | None \<Rightarrow> [])"

text \<open>\<^verbatim>\<open>PluginManager_List\<close>: the loop walks \<^verbatim>\<open>pModule\<close> along the list and leaves through the
  first entry that passes both tests.\<close>

fun List_loop :: "extern \<Rightarrow> VMM_PROCESS option \<Rightarrow> wstring \<Rightarrow> wstring option \<Rightarrow> file_list
                    \<Rightarrow> PLUGIN_LISTENTRY list \<Rightarrow> vmm_state \<Rightarrow> bool \<times> file_list \<times> vmm_state" where
  "List_loop E pProcess wszModule wszPath pFileList [] s = (False, pFileList, s)"
| "List_loop E pProcess wszModule wszPath pFileList (pModule # FLink) s =
     (if \<not> scope_matches pProcess pModule
      then List_loop E pProcess wszModule wszPath pFileList FLink s
      else (case pfnList pModule of
              Some f \<Rightarrow>
                (if wcsicmp wszModule (wszModuleName pModule) = 0
                 then (let ctx = PluginManager_ContextInitialize E pModule pProcess
                                   (path_or_empty wszPath);
                           r = call_pfnList E f ctx pFileList
                       in (fst r, snd r, record_event (EvList pModule ctx) s))
                 else List_loop E pProcess wszModule wszPath pFileList FLink s)
            | None \<Rightarrow> List_loop E pProcess wszModule wszPath pFileList FLink s))"

definition PluginManager_List ::
  "extern \<Rightarrow> VMM_PROCESS option \<Rightarrow> wstring \<Rightarrow> wstring option \<Rightarrow> file_list \<Rightarrow> vmm_state
     \<Rightarrow> bool \<times> file_list \<times> vmm_state" where
  "PluginManager_List E pProcess wszModule wszPath pFileList s =
     List_loop E pProcess wszModule wszPath pFileList (pVmmVfsModuleList s) s"

text \<open>\<^verbatim>\<open>PluginManager_Read\<close>: \<open>pb\<close> and \<open>pcbRead\<close> are the contents of the caller's buffer
  and of the cell \<^verbatim>\<open>*pcbRead\<close> before the call; the result holds them after it.\<close>

fun Read_loop :: "extern \<Rightarrow> VMM_PROCESS option \<Rightarrow> wstring \<Rightarrow> wstring option \<Rightarrow> BYTE list \<Rightarrow> DWORD
                    \<Rightarrow> DWORD \<Rightarrow> QWORD \<Rightarrow> PLUGIN_LISTENTRY list \<Rightarrow> vmm_state
                    \<Rightarrow> NTSTATUS \<times> BYTE list \<times> DWORD \<times> vmm_state" where
  "Read_loop E pProcess wszModule wszPath pb cb pcbRead cbOffset [] s =
     (VMMDLL_STATUS_FILE_INVALID, pb, pcbRead, s)"
| "Read_loop E pProcess wszModule wszPath pb cb pcbRead cbOffset (pModule # FLink) s =
     (if \<not> scope_matches pProcess pModule
      then Read_loop E pProcess wszModule wszPath pb cb pcbRead cbOffset FLink s
      else (case pfnRead pModule of
              Some f \<Rightarrow>
                (if wcsicmp wszModule (wszModuleName pModule) = 0
                 then (let ctx = PluginManager_ContextInitialize E pModule pProcess
                                   (path_or_empty wszPath);
                           r = call_pfnRead E f ctx pb cb pcbRead cbOffset
                       in (fst r, fst (snd r), snd (snd r),
                           record_event (EvRead pModule ctx cb cbOffset) s))
                 else Read_loop E pProcess wszModule wszPath pb cb pcbRead cbOffset FLink s)
            | None \<Rightarrow> Read_loop E pProcess wszModule wszPath pb cb pcbRead cbOffset FLink s))"

definition PluginManager_Read ::
  "extern \<Rightarrow> VMM_PROCESS option \<Rightarrow> wstring \<Rightarrow> wstring option \<Rightarrow> BYTE list \<Rightarrow> DWORD \<Rightarrow> DWORD
     \<Rightarrow> QWORD \<Rightarrow> vmm_state \<Rightarrow> NTSTATUS \<times> BYTE list \<times> DWORD \<times> vmm_state" where
  "PluginManager_Read E pProcess wszModule wszPath pb cb pcbRead cbOffset s =
     Read_loop E pProcess wszModule wszPath pb cb pcbRead cbOffset (pVmmVfsModuleList s) s"

text \<open>\<^verbatim>\<open>PluginManager_Write\<close>: the buffer is input only; \<open>pcbWrite\<close> is the cell
  \<^verbatim>\<open>*pcbWrite\<close>.\<close>

fun Write_loop :: "extern \<Rightarrow> VMM_PROCESS option \<Rightarrow> wstring \<Rightarrow> wstring option \<Rightarrow> BYTE list \<Rightarrow> DWORD
                    \<Rightarrow> DWORD \<Rightarrow> QWORD \<Rightarrow> PLUGIN_LISTENTRY list \<Rightarrow> vmm_state
                    \<Rightarrow> NTSTATUS \<times> DWORD \<times> vmm_state" where
  "Write_loop E pProcess wszModule wszPath pb cb pcbWrite cbOffset [] s =
     (VMMDLL_STATUS_FILE_INVALID, pcbWrite, s)"
| "Write_loop E pProcess wszModule wszPath pb cb pcbWrite cbOffset (pModule # FLink) s =
     (if \<not> scope_matches pProcess pModule
      then Write_loop E pProcess wszModule wszPath pb cb pcbWrite cbOffset FLink s
      else (case pfnWrite pModule of
              Some f \<Rightarrow>
                (if wcsicmp wszModule (wszModuleName pModule) = 0
                 then (let ctx = PluginManager_ContextInitialize E pModule pProcess
                                   (path_or_empty wszPath);
                           r = call_pfnWrite E f ctx pb cb pcbWrite cbOffset
                       in (fst r, snd r, record_event (EvWrite pModule ctx pb cb cbOffset) s))
                 else Write_loop E pProcess wszModule wszPath pb cb pcbWrite cbOffset FLink s)
            | None \<Rightarrow> Write_loop E pProcess wszModule wszPath pb cb pcbWrite cbOffset FLink s))"

definition PluginManager_Write ::
  "extern \<Rightarrow> VMM_PROCESS option \<Rightarrow> wstring \<Rightarrow> wstring option \<Rightarrow> BYTE list \<Rightarrow> DWORD \<Rightarrow> DWORD
     \<Rightarrow> QWORD \<Rightarrow> vmm_state \<Rightarrow> NTSTATUS \<times> DWORD \<times> vmm_state" where
  "PluginManager_Write E pProcess wszModule wszPath pb cb pcbWrite cbOffset s =
     Write_loop E pProcess wszModule wszPath pb cb pcbWrite cbOffset (pVmmVfsModuleList s) s"

text \<open>\<^verbatim>\<open>PluginManager_Notify\<close>: the pointer \<^verbatim>\<open>pvEvent\<close> is passed on as it comes.\<close>

fun Notify_loop :: "DWORD \<Rightarrow> nat option \<Rightarrow> DWORD \<Rightarrow> PLUGIN_LISTENTRY list \<Rightarrow> vmm_state \<Rightarrow> vmm_state" where
  "Notify_loop fEvent pvEvent cbEvent [] s = s"
| "Notify_loop fEvent pvEvent cbEvent (pModule # FLink) s =
     Notify_loop fEvent pvEvent cbEvent FLink
       (if pfnNotify pModule \<noteq> None
        then record_event (EvNotify pModule fEvent pvEvent cbEvent) s else s)"

definition PluginManager_Notify :: "DWORD \<Rightarrow> nat option \<Rightarrow> DWORD \<Rightarrow> vmm_state \<Rightarrow> bool \<times> vmm_state" where
  "PluginManager_Notify fEvent pvEvent cbEvent s =
     (True, Notify_loop fEvent pvEvent cbEvent (pVmmVfsModuleList s) s)"

subsection \<open>Registration\<close>

text \<open>\<^verbatim>\<open>PluginManager_ModuleExists\<close>\<close>

fun ModuleExists_loop :: "HMODULE \<Rightarrow> wstring option \<Rightarrow> PLUGIN_LISTENTRY list \<Rightarrow> bool" where
  "ModuleExists_loop h wszModule [] = False"
| "ModuleExists_loop h wszModule (pModule # FLink) =
     (if h \<noteq> None \<and> h = hDLL pModule then True
      else if (case wszModule of
                 Some w \<Rightarrow> wcsicmp w (wszModuleName pModule) = 0
               | None \<Rightarrow> False) then True
      else ModuleExists_loop h wszModule FLink)"

definition PluginManager_ModuleExists :: "HMODULE \<Rightarrow> wstring option \<Rightarrow> vmm_state \<Rightarrow> bool" where
  "PluginManager_ModuleExists h wszModule s = ModuleExists_loop h wszModule (pVmmVfsModuleList s)"

text \<open>\<^verbatim>\<open>wszModuleName[0]\<close> as a truth value.\<close>

definition first_unit_nonzero :: "wstring \<Rightarrow> bool" where
  "first_unit_nonzero w = (case w of [] \<Rightarrow> False | c # _ \<Rightarrow> c \<noteq> 0)"

text \<open>The entry filled in under "2: register module". \<^verbatim>\<open>wcsncpy_s\<close> with both counts 32
  copies the whole string, which has at most 31 units when this point is reached.\<close>

definition new_entry :: "VMMDLL_PLUGIN_REGINFO \<Rightarrow> PLUGIN_LISTENTRY" where
  "new_entry ri =
     \<lparr> hDLL = ri_hDLL ri,
       wszModuleName = wcs (reg_info_wszModuleName ri),
       fRootModule = reg_info_fRootModule ri,
       fProcessModule = reg_info_fProcessModule ri,
       pfnList = reg_fn_pfnList ri,
       pfnRead = reg_fn_pfnRead ri,
       pfnWrite = reg_fn_pfnWrite ri,
       pfnNotify = reg_fn_pfnNotify ri,
       pfnClose = reg_fn_pfnClose ri \<rparr>"

text \<open>\<^verbatim>\<open>PluginManager_Register\<close>, test by test in the order of the source. The entry
  allocated before the scope test is not freed when that test fails.\<close>

definition PluginManager_Register ::
  "extern \<Rightarrow> VMMDLL_PLUGIN_REGINFO option \<Rightarrow> vmm_state \<Rightarrow> bool \<times> vmm_state" where
  "PluginManager_Register E pRegInfo s =
     (case pRegInfo of
        None \<Rightarrow> (False, s)
      | Some ri \<Rightarrow>
          if magic ri \<noteq> VMMDLL_PLUGIN_REGINFO_MAGIC E \<or> wVersion ri > VMMDLL_PLUGIN_REGINFO_VERSION E
          then (False, s)
          else if reg_fn_pfnList ri = None \<or> \<not> first_unit_nonzero (reg_info_wszModuleName ri)
                  \<or> wcslen (reg_info_wszModuleName ri) > 31
          then (False, s)
          else if PluginManager_ModuleExists None (Some (reg_info_wszModuleName ri)) s
          then (False, s)
          else (case LocalAlloc s of
                  (allocated, s1) \<Rightarrow>
                    if \<not> allocated then (False, s1)
                    else if \<not> reg_info_fRootModule ri \<and> \<not> reg_info_fProcessModule ri
                    then (False, s1)
                    else (True, s1\<lparr>pVmmVfsModuleList := new_entry ri # pVmmVfsModuleList s1\<rparr>)))"

subsection \<open>Teardown\<close>

text \<open>\<^verbatim>\<open>PluginManager_Close\<close>: one round of the loop detaches the head, calls its close
  function, releases its library when no entry left in the list has the same handle, and
  frees the entry.\<close>

definition Close_step :: "PLUGIN_LISTENTRY \<Rightarrow> PLUGIN_LISTENTRY list \<Rightarrow> vmm_state \<Rightarrow> vmm_state" where
  "Close_step pm FLink s =
     (let s1 = s\<lparr>pVmmVfsModuleList := FLink\<rparr>;
          s2 = (if pfnClose pm \<noteq> None then record_event (EvClose pm) s1 else s1);
          s3 = (case hDLL pm of
                  Some h \<Rightarrow> if \<not> PluginManager_ModuleExists (hDLL pm) None s2
                            then FreeLibrary h s2 else s2
                | None \<Rightarrow> s2)
      in LocalFree pm s3)"

function PluginManager_Close :: "vmm_state \<Rightarrow> vmm_state" where
  "PluginManager_Close s =
     (case pVmmVfsModuleList s of
        [] \<Rightarrow> s
      | pm # FLink \<Rightarrow> PluginManager_Close (Close_step pm FLink s))"
  by pat_completeness auto
termination
  by (relation "measure (\<lambda>s. length (pVmmVfsModuleList s))")
     (simp_all add: Close_step_def Let_def LocalFree_def FreeLibrary_def record_event_def
        split: option.splits)

subsection \<open>Bring-up\<close>

text \<open>\<^verbatim>\<open>PluginManager_Initialize_RegInfoInit\<close>: everything zero, then the seven assignments
  (the seventh is the call-back, see \<open>init_prog\<close>).\<close>

definition PluginManager_Initialize_RegInfoInit ::
  "extern \<Rightarrow> HMODULE \<Rightarrow> vmm_state \<Rightarrow> VMMDLL_PLUGIN_REGINFO" where
  "PluginManager_Initialize_RegInfoInit E h s =
     \<lparr> magic = VMMDLL_PLUGIN_REGINFO_MAGIC E,
       wVersion = VMMDLL_PLUGIN_REGINFO_VERSION E,
       wSize = sizeof_VMMDLL_PLUGIN_REGINFO E,
       tpMemoryModel = ctxVmm_tpMemoryModel s,
       tpSystem = ctxVmm_tpSystem s,
       ri_hDLL = h,
       hReservedDllPython3X = None,
       hReservedDllPython3 = None,
       reg_info_wszModuleName = [],
       reg_info_fRootModule = False,
       reg_info_fProcessModule = False,
       reg_fn_pfnList = None,
       reg_fn_pfnRead = None,
       reg_fn_pfnWrite = None,
       reg_fn_pfnNotify = None,
       reg_fn_pfnClose = None \<rparr>"

text \<open>Running an initializer: each of its calls of the call-back is a call of
  \<^verbatim>\<open>PluginManager_Register\<close> on the state of that moment.\<close>

primrec run_init :: "extern \<Rightarrow> init_prog \<Rightarrow> vmm_state \<Rightarrow> vmm_state" where
  "run_init E Return = (\<lambda>s. s)"
| "run_init E (CallRegister pRegInfo k) =
     (\<lambda>s. case PluginManager_Register E pRegInfo s of (b, s') \<Rightarrow> run_init E (k b) s')"

definition backslash :: string where
  "backslash = [CHR 0x5C]"

definition szPYTHON_VERSIONS_SUPPORTED :: "string list" where
  "szPYTHON_VERSIONS_SUPPORTED = [''python36.dll'', ''python37.dll'', ''python38.dll'']"

definition LOAD_WITH_ALTERED_SEARCH_PATH :: DWORD where
  "LOAD_WITH_ALTERED_SEARCH_PATH = 0x00000008"

text \<open>The secure string routines on a buffer of \<open>n\<close> characters: the result and its
  terminator must fit, otherwise the invalid-parameter handler is called (\<open>None\<close>).\<close>

definition strcpy_s :: "nat \<Rightarrow> string \<Rightarrow> string option" where
  "strcpy_s n src = (if length src < n then Some src else None)"

definition strcat_s :: "nat \<Rightarrow> string \<Rightarrow> string \<Rightarrow> string option" where
  "strcat_s n dst src = (if length dst + length src < n then Some (dst @ src) else None)"

definition strnlen :: "string \<Rightarrow> nat \<Rightarrow> nat" where
  "strnlen sz n = min (length sz) n"

text \<open>The process has been ended by the invalid-parameter handler, in the given state.\<close>

datatype fatal = Invalid_Parameter vmm_state

text \<open>The path tried in the first loop (lines 234 to 237): the buffer is zeroed, the
  configured path is copied in, a backslash and the file name are appended.\<close>

definition user_path_dll :: "extern \<Rightarrow> string \<Rightarrow> string \<Rightarrow> string option" where
  "user_path_dll E cfg_szPythonPath v =
     Option.bind (strcpy_s (MAX_PATH E) cfg_szPythonPath)
       (\<lambda>b. Option.bind (strcat_s (MAX_PATH E) b backslash)
          (\<lambda>b. strcat_s (MAX_PATH E) b v))"

text \<open>The path tried in the second loop (lines 250 to 253).\<close>

definition exe_path_dll :: "extern \<Rightarrow> string \<Rightarrow> string option" where
  "exe_path_dll E v =
     Option.bind (strcat_s (MAX_PATH E) (Util_GetPathDll E None) (''python'' @ backslash))
       (\<lambda>b. strcat_s (MAX_PATH E) b v)"

text \<open>The first two \<^verbatim>\<open>for\<close> loops over the supported versions: build the path, load, stop
  at the first that loads; the handle is \<^verbatim>\<open>NULL\<close> when none does.\<close>

fun load_versions_ex ::
  "extern \<Rightarrow> (string \<Rightarrow> string option) \<Rightarrow> string list \<Rightarrow> vmm_state
     \<Rightarrow> fatal + HMODULE \<times> vmm_state" where
  "load_versions_ex E build [] s = Inr (None, s)"
| "load_versions_ex E build (v # vs) s =
     (case build v of
        None \<Rightarrow> Inl (Invalid_Parameter s)
      | Some szPythonPath' \<Rightarrow>
          (case LoadLibraryExA E szPythonPath' LOAD_WITH_ALTERED_SEARCH_PATH s of
             (Some h, s') \<Rightarrow> Inr (Some h, s')
           | (None, s') \<Rightarrow> load_versions_ex E build vs s'))"

text \<open>The third loop (lines 264 to 267) loads by file name.\<close>

fun load_versions :: "extern \<Rightarrow> string list \<Rightarrow> vmm_state \<Rightarrow> HMODULE \<times> vmm_state" where
  "load_versions E [] s = (None, s)"
| "load_versions E (v # vs) s =
     (case LoadLibraryA E v s of
        (Some h, s') \<Rightarrow> (Some h, s')
      | (None, s') \<Rightarrow> load_versions E vs s')"

text \<open>The code behind the label \<^verbatim>\<open>fail\<close>.\<close>

definition python_fail :: "HMODULE \<Rightarrow> HMODULE \<Rightarrow> HMODULE \<Rightarrow> vmm_state \<Rightarrow> vmm_state" where
  "python_fail hDllPyPlugin hDllPython3X hDllPython3 s =
     (let s1 = (case hDllPyPlugin of Some h \<Rightarrow> FreeLibrary h s | None \<Rightarrow> s);
          s2 = (case hDllPython3X of Some h \<Rightarrow> FreeLibrary h s1 | None \<Rightarrow> s1)
      in (case hDllPython3 of Some h \<Rightarrow> FreeLibrary h s2 | None \<Rightarrow> s2))"

text \<open>Step 2 of \<^verbatim>\<open>PluginManager_Initialize_Python\<close> (lines 248 to 261), entered with the
  handle step 1 has left.\<close>

definition python_locate_exe ::
  "extern \<Rightarrow> HMODULE \<Rightarrow> vmm_state \<Rightarrow> fatal + HMODULE \<times> vmm_state" where
  "python_locate_exe E hDllPython3X s =
     (if szPythonPath s = []
      then (case load_versions_ex E (exe_path_dll E) szPYTHON_VERSIONS_SUPPORTED s of
              Inl f \<Rightarrow> Inl f
            | Inr (None, s') \<Rightarrow> Inr (None, s')
            | Inr (Some h, s') \<Rightarrow>
                (case strcat_s (countof_cfg_szPythonPath E) (Util_GetPathDll E None)
                        (''python'' @ backslash) of
                   None \<Rightarrow> Inl (Invalid_Parameter (s'\<lparr>szPythonPath := Util_GetPathDll E None\<rparr>))
                 | Some path \<Rightarrow> Inr (Some h, s'\<lparr>szPythonPath := path\<rparr>)))
      else Inr (hDllPython3X, s))"

text \<open>Step 3 (lines 263 to 271).\<close>

definition python_locate_search :: "extern \<Rightarrow> HMODULE \<Rightarrow> vmm_state \<Rightarrow> HMODULE \<times> vmm_state" where
  "python_locate_search E hDllPython3X s =
     (if szPythonPath s = []
      then (case load_versions E szPYTHON_VERSIONS_SUPPORTED s of
              (Some h, s') \<Rightarrow> (Some h, s'\<lparr>szPythonPath := Util_GetPathDll E (Some h)\<rparr>)
            | (None, s') \<Rightarrow> (None, s'))
      else (hDllPython3X, s))"

text \<open>Steps 5 and 6 (lines 277 to 302), reached with the interpreter handle of steps 1 to
  3.\<close>

definition python_bridge :: "extern \<Rightarrow> HMODULE \<Rightarrow> vmm_state \<Rightarrow> fatal + vmm_state" where
  "python_bridge E hDllPython3X s =
     (case strcat_s (MAX_PATH E) (Util_GetPathDll E hDllPython3X) ''python3.dll'' of
        None \<Rightarrow> Inl (Invalid_Parameter s)
      | Some szPythonPath' \<Rightarrow>
          (case LoadLibraryExA E szPythonPath' LOAD_WITH_ALTERED_SEARCH_PATH s of
             (hDllPython3, s1) \<Rightarrow>
               (case LoadLibraryA E ''vmmpycplugin.dll'' s1 of
                  (None, s2) \<Rightarrow> Inr (python_fail None hDllPython3X hDllPython3 s2)
                | (Some hp, s2) \<Rightarrow>
                    (case os_GetProcAddress E hp ''InitializeVmmPlugin'' of
                       None \<Rightarrow> Inr (python_fail (Some hp) hDllPython3X hDllPython3 s2)
                     | Some pfnInitializeVmmPlugin \<Rightarrow>
                         (let ri = (PluginManager_Initialize_RegInfoInit E (Some hp) s2)
                                     \<lparr> hReservedDllPython3X := hDllPython3X,
                                       hReservedDllPython3 := hDllPython3 \<rparr>;
                              s3 = run_init E (pfnInitializeVmmPlugin ri) s2
                          in if \<not> PluginManager_ModuleExists (Some hp) None s3 then Inr s3
                             else Inr (case hDllPython3X of
                                         Some h \<Rightarrow> FreeLibrary h s3
                                       | None \<Rightarrow> s3))))))"

text \<open>\<^verbatim>\<open>PluginManager_Initialize_Python\<close>: step 1 (lines 232 to 246), then steps 2 and 3,
  step 4 (lines 273 to 276) and the bridge.\<close>

definition PluginManager_Initialize_Python :: "extern \<Rightarrow> vmm_state \<Rightarrow> fatal + vmm_state" where
  "PluginManager_Initialize_Python E s =
     (case (if szPythonPath s \<noteq> []
            then load_versions_ex E (user_path_dll E (szPythonPath s))
                   szPYTHON_VERSIONS_SUPPORTED s
            else Inr (None, s)) of
        Inl f \<Rightarrow> Inl f
      | Inr (h1, s1) \<Rightarrow>
          if szPythonPath s \<noteq> [] \<and> h1 = None then Inr (s1\<lparr>szPythonPath := []\<rparr>)
          else
            (case python_locate_exe E h1 s1 of
               Inl f \<Rightarrow> Inl f
             | Inr (h2, s2) \<Rightarrow>
                 (case python_locate_search E h2 s2 of
                    (hDllPython3X, s3) \<Rightarrow>
                      if szPythonPath s3 = [] then Inr (python_fail None hDllPython3X None s3)
                      else python_bridge E hDllPython3X s3)))"

text \<open>The body of the \<^verbatim>\<open>do ... while(FindNextFileA(...))\<close> loop of
  \<^verbatim>\<open>PluginManager_Initialize\<close>, once for each file found: the buffer \<open>szPath\<close> is cut
  at \<open>cchPathBase\<close> and the directory and file name are appended.\<close>

fun Initialize_dlls ::
  "extern \<Rightarrow> nat \<Rightarrow> string \<Rightarrow> string list \<Rightarrow> vmm_state \<Rightarrow> fatal + vmm_state" where
  "Initialize_dlls E cchPathBase szPath [] s = Inr s"
| "Initialize_dlls E cchPathBase szPath (cFileName # others) s =
     (case Option.bind (strcat_s (MAX_PATH E) (take cchPathBase szPath) (''plugins'' @ backslash))
             (\<lambda>b. strcat_s (MAX_PATH E) b cFileName) of
        None \<Rightarrow> Inl (Invalid_Parameter s)
      | Some szPath' \<Rightarrow>
          (case LoadLibraryExA E szPath' 0 s of
             (None, s1) \<Rightarrow> Initialize_dlls E cchPathBase szPath' others s1
           | (Some h, s1) \<Rightarrow>
               (case os_GetProcAddress E h ''InitializeVmmPlugin'' of
                  None \<Rightarrow> Initialize_dlls E cchPathBase szPath' others (FreeLibrary h s1)
                | Some pfnInitializeVmmPlugin \<Rightarrow>
                    (let s2 = run_init E
                                (pfnInitializeVmmPlugin
                                   (PluginManager_Initialize_RegInfoInit E (Some h) s1)) s1
                     in if \<not> PluginManager_ModuleExists (Some h) None s2
                        then Initialize_dlls E cchPathBase szPath' others (FreeLibrary h s2)
                        else Initialize_dlls E cchPathBase szPath' others s2))))"

text \<open>The ten built-in initializers in the order they are called, each on a freshly
  prepared registration record.\<close>

definition builtin_initializers :: "extern \<Rightarrow> (VMMDLL_PLUGIN_REGINFO \<Rightarrow> init_prog) list" where
  "builtin_initializers E =
     [M_Virt2Phys_Initialize E, M_Phys2Virt_Initialize E, M_LdrModules_Initialize E,
      M_MemMap_Initialize E, M_Status_Initialize E, M_WinReg_Initialize E,
      M_PEDump_Initialize E, M_HandleInfo_Initialize E, M_ThreadInfo_Initialize E,
      M_SysInfo_Initialize E]"

fun Initialize_builtin ::
  "extern \<Rightarrow> (VMMDLL_PLUGIN_REGINFO \<Rightarrow> init_prog) list \<Rightarrow> vmm_state \<Rightarrow> vmm_state" where
  "Initialize_builtin E [] s = s"
| "Initialize_builtin E (M_Initialize # others) s =
     Initialize_builtin E others
       (run_init E (M_Initialize (PluginManager_Initialize_RegInfoInit E None s)) s)"

text \<open>\<^verbatim>\<open>PluginManager_Initialize\<close>. \<^verbatim>\<open>FindFirstFileA\<close> and \<^verbatim>\<open>FindNextFileA\<close> hand out the
  files matching the pattern one after the other; no file at all is
  \<^verbatim>\<open>INVALID_HANDLE_VALUE\<close>.\<close>

definition PluginManager_Initialize :: "extern \<Rightarrow> vmm_state \<Rightarrow> fatal + bool \<times> vmm_state" where
  "PluginManager_Initialize E s =
     (if pVmmVfsModuleList s \<noteq> [] then Inr (False, s)
      else
        (let s1 = Initialize_builtin E (builtin_initializers E) s;
             szPath0 = Util_GetPathDll E None;
             cchPathBase = strnlen szPath0 (MAX_PATH E - 1)
         in (case strcat_s (MAX_PATH E) szPath0 (''plugins'' @ backslash @ ''m_*.dll'') of
               None \<Rightarrow> Inl (Invalid_Parameter s1)
             | Some szPath \<Rightarrow>
                 (case Initialize_dlls E cchPathBase szPath (os_FindFiles E szPath) s1 of
                    Inl f \<Rightarrow> Inl f
                  | Inr s2 \<Rightarrow>
                      (case PluginManager_Initialize_Python E s2 of
                         Inl f \<Rightarrow> Inl f
                       | Inr s3 \<Rightarrow> Inr (True, s3))))))"

subsection \<open>Notions of the specification\<close>

text \<open>Following the spec's words (section 4.1): a record is valid when magic, version and
  size match the supported ranges, the name is non-empty and within the length bound, a
  scope flag is set, the list capability is present and the name collides with no entry.\<close>

definition spec_registration_valid :: "extern \<Rightarrow> VMMDLL_PLUGIN_REGINFO \<Rightarrow> vmm_state \<Rightarrow> bool" where
  "spec_registration_valid E ri s \<longleftrightarrow>
     magic ri = VMMDLL_PLUGIN_REGINFO_MAGIC E
     \<and> wVersion ri \<le> VMMDLL_PLUGIN_REGINFO_VERSION E
     \<and> wSize ri = sizeof_VMMDLL_PLUGIN_REGINFO E
     \<and> first_unit_nonzero (reg_info_wszModuleName ri)
     \<and> wcslen (reg_info_wszModuleName ri) \<le> 31
     \<and> (reg_info_fRootModule ri \<or> reg_info_fProcessModule ri)
     \<and> reg_fn_pfnList ri \<noteq> None
     \<and> \<not> list_ex (\<lambda>m. wcsicmp (reg_info_wszModuleName ri) (wszModuleName m) = 0)
           (pVmmVfsModuleList s)"

text \<open>Following the spec's words (section 3, invariants): module names are unique under
  the case-insensitive comparison; every entry has at least one scope flag and a non-null
  list capability.\<close>

fun names_distinct :: "PLUGIN_LISTENTRY list \<Rightarrow> bool" where
  "names_distinct [] = True"
| "names_distinct (m # ms) =
     ((\<forall>m'\<in>set ms. wcsicmp (wszModuleName m) (wszModuleName m') \<noteq> 0) \<and> names_distinct ms)"

definition registry_inv :: "PLUGIN_LISTENTRY list \<Rightarrow> bool" where
  "registry_inv ms \<longleftrightarrow>
     names_distinct ms
     \<and> (\<forall>m\<in>set ms. (fRootModule m \<or> fProcessModule m) \<and> pfnList m \<noteq> None)"

text \<open>The scope/name lookup of the spec (section 4.2): the first entry whose scope matches
  the call shape and whose name matches case-insensitively.\<close>

definition spec_lookup ::
  "VMM_PROCESS option \<Rightarrow> wstring \<Rightarrow> PLUGIN_LISTENTRY list \<Rightarrow> PLUGIN_LISTENTRY option" where
  "spec_lookup pProcess wszModule ms =
     find (\<lambda>m. scope_matches pProcess m \<and> wcsicmp wszModule (wszModuleName m) = 0) ms"

text \<open>What a call has added to the trace.\<close>

definition new_events :: "vmm_state \<Rightarrow> vmm_state \<Rightarrow> event list" where
  "new_events s s' = drop (length (trace s)) (trace s')"

text \<open>Following the spec's words (section 4.2): the byte count is filled in only on
  success.\<close>

definition spec_count_only_on_success :: "NTSTATUS \<Rightarrow> DWORD \<Rightarrow> DWORD \<Rightarrow> bool" where
  "spec_count_only_on_success nt count_before count_after \<longleftrightarrow>
     (nt \<noteq> VMMDLL_STATUS_SUCCESS \<longrightarrow> count_after = count_before)"

text \<open>Following the spec's words (section 4.5): for each entry from the head on, invoke
  the entry's close capability if present; if the entry owns a native library reference
  and no remaining entry shares that same reference, release the library; free the
  entry.\<close>

fun spec_teardown_events :: "PLUGIN_LISTENTRY list \<Rightarrow> event list" where
  "spec_teardown_events [] = []"
| "spec_teardown_events (pm # remaining) =
     (if pfnClose pm \<noteq> None then [EvClose pm] else [])
     @ (case hDLL pm of
          Some h \<Rightarrow> if list_ex (\<lambda>m. hDLL m = Some h) remaining then [] else [EvFreeLibrary h]
        | None \<Rightarrow> [])
     @ [EvLocalFree pm]
     @ spec_teardown_events remaining"

definition is_close_event :: "event \<Rightarrow> bool" where
  "is_close_event e = (case e of EvClose m \<Rightarrow> True | _ \<Rightarrow> False)"

definition is_local_free_event :: "event \<Rightarrow> bool" where
  "is_local_free_event e = (case e of EvLocalFree m \<Rightarrow> True | _ \<Rightarrow> False)"

text \<open>Following the spec's words (section 4.4, phase 3): any handle acquired in the phase
  must be released before returning from a failed phase.\<close>

fun acquired_handles :: "event list \<Rightarrow> nat list" where
  "acquired_handles [] = []"
| "acquired_handles (EvLoadLibrary path (Some h) # es) = h # acquired_handles es"
| "acquired_handles (e # es) = acquired_handles es"

definition spec_handles_released :: "event list \<Rightarrow> bool" where
  "spec_handles_released es = list_all (\<lambda>h. EvFreeLibrary h \<in> set es) (acquired_handles es)"

text \<open>The state in which a call has returned or the process has ended.\<close>

definition final_state :: "fatal + vmm_state \<Rightarrow> vmm_state" where
  "final_state r = (case r of Inl (Invalid_Parameter s) \<Rightarrow> s | Inr s \<Rightarrow> s)"

text \<open>The operations of the file on the global state, results dropped. A sequence of
  operations stops when the process ends.\<close>

datatype operation =
    OpRegister "VMMDLL_PLUGIN_REGINFO option"
  | OpList "VMM_PROCESS option" wstring "wstring option" file_list
  | OpRead "VMM_PROCESS option" wstring "wstring option" "BYTE list" DWORD DWORD QWORD
  | OpWrite "VMM_PROCESS option" wstring "wstring option" "BYTE list" DWORD DWORD QWORD
  | OpNotify DWORD "nat option" DWORD
  | OpInitialize
  | OpClose

fun apply_operation :: "extern \<Rightarrow> vmm_state \<Rightarrow> operation \<Rightarrow> fatal + vmm_state" where
  "apply_operation E s (OpRegister pRegInfo) = Inr (snd (PluginManager_Register E pRegInfo s))"
| "apply_operation E s (OpList pProcess wszModule wszPath pFileList) =
     Inr (snd (snd (PluginManager_List E pProcess wszModule wszPath pFileList s)))"
| "apply_operation E s (OpRead pProcess wszModule wszPath pb cb pcbRead cbOffset) =
     Inr (snd (snd (snd
       (PluginManager_Read E pProcess wszModule wszPath pb cb pcbRead cbOffset s))))"
| "apply_operation E s (OpWrite pProcess wszModule wszPath pb cb pcbWrite cbOffset) =
     Inr (snd (snd (PluginManager_Write E pProcess wszModule wszPath pb cb pcbWrite cbOffset s)))"
| "apply_operation E s (OpNotify fEvent pvEvent cbEvent) =
     Inr (snd (PluginManager_Notify fEvent pvEvent cbEvent s))"
| "apply_operation E s OpInitialize =
     (case PluginManager_Initialize E s of Inl f \<Rightarrow> Inl f | Inr (result, s') \<Rightarrow> Inr s')"
| "apply_operation E s OpClose = Inr (PluginManager_Close s)"

fun run_operations :: "extern \<Rightarrow> vmm_state \<Rightarrow> operation list \<Rightarrow> fatal + vmm_state" where
  "run_operations E s [] = Inr s"
| "run_operations E s (op # ops) =
     (case apply_operation E s op of Inl f \<Rightarrow> Inl f | Inr s' \<Rightarrow> run_operations E s' ops)"

text \<open>Following the claim's words: bring-up returns success.\<close>

definition spec_returns_success :: "fatal + bool \<times> vmm_state \<Rightarrow> bool" where
  "spec_returns_success r = (case r of Inl f \<Rightarrow> False | Inr (result, s') \<Rightarrow> result)"

text \<open>Every path that bring-up builds fits its buffer: the directory of any module with
  the longest names appended to it (\<^verbatim>\<open>python\<close>, a backslash and a 12 character file name),
  the directory of the executable with \<^verbatim>\<open>python\<close> and a backslash in the configuration
  field, the configured path with a backslash and a file name, and the plugins directory
  with every file found there.\<close>

definition bringup_paths_fit :: "extern \<Rightarrow> vmm_state \<Rightarrow> bool" where
  "bringup_paths_fit E s \<longleftrightarrow>
     (\<forall>h. length (Util_GetPathDll E h) + 19 < MAX_PATH E)
     \<and> length (Util_GetPathDll E None) + 7 < countof_cfg_szPythonPath E
     \<and> length (szPythonPath s) + 13 < MAX_PATH E
     \<and> (\<forall>cFileName\<in>set (os_FindFiles E
                            (Util_GetPathDll E None @ ''plugins'' @ backslash @ ''m_*.dll'')).
          length (Util_GetPathDll E None) + 8 + length cFileName < MAX_PATH E)"

text \<open>The second state has the trace of the first and possibly more.\<close>

definition trace_grows :: "vmm_state \<Rightarrow> vmm_state \<Rightarrow> bool" where
  "trace_grows s s' \<longleftrightarrow> (\<exists>es. trace s' = trace s @ es)"

subsection \<open>Sample inputs\<close>

text \<open>An environment in which nothing can be loaded, no initializer registers anything, a
  module's list succeeds and adds nothing, and a module's read or write reports five bytes
  and the invalid-file status.\<close>

definition sample_extern :: extern where
  "sample_extern =
     \<lparr> VMMDLL_PLUGIN_REGINFO_MAGIC = 0xC0FFEE663DF9301D,
       VMMDLL_PLUGIN_REGINFO_VERSION = 2,
       sizeof_VMMDLL_PLUGIN_REGINFO = 0x100,
       VMMDLL_PLUGIN_CONTEXT_MAGIC = 0xC0FFEE663DF9301C,
       VMMDLL_PLUGIN_CONTEXT_VERSION = 2,
       sizeof_VMMDLL_PLUGIN_CONTEXT = 0x40,
       MAX_PATH = 260,
       countof_cfg_szPythonPath = 260,
       call_pfnList = (\<lambda>f ctx fl. (True, fl)),
       call_pfnRead = (\<lambda>f ctx pb cb pcbRead cbOffset. (VMMDLL_STATUS_FILE_INVALID, pb, 5)),
       call_pfnWrite = (\<lambda>f ctx pb cb pcbWrite cbOffset. (VMMDLL_STATUS_FILE_INVALID, 5)),
       os_LoadLibraryExA = (\<lambda>path flags. None),
       os_LoadLibraryA = (\<lambda>path. None),
       os_GetProcAddress = (\<lambda>h name. None),
       os_FindFiles = (\<lambda>pattern. []),
       Util_GetPathDll = (\<lambda>h. ''C:'' @ backslash),
       M_Virt2Phys_Initialize = (\<lambda>ri. Return),
       M_Phys2Virt_Initialize = (\<lambda>ri. Return),
       M_LdrModules_Initialize = (\<lambda>ri. Return),
       M_MemMap_Initialize = (\<lambda>ri. Return),
       M_Status_Initialize = (\<lambda>ri. Return),
       M_WinReg_Initialize = (\<lambda>ri. Return),
       M_PEDump_Initialize = (\<lambda>ri. Return),
       M_HandleInfo_Initialize = (\<lambda>ri. Return),
       M_ThreadInfo_Initialize = (\<lambda>ri. Return),
       M_SysInfo_Initialize = (\<lambda>ri. Return) \<rparr>"

text \<open>The state before bring-up.\<close>

definition sample_state :: vmm_state where
  "sample_state =
     \<lparr> pVmmVfsModuleList = [], ctxVmm_tpMemoryModel = 3, ctxVmm_tpSystem = 2,
       szPythonPath = [], alloc_outcomes = [], trace = [] \<rparr>"

text \<open>The state before bring-up with a configured interpreter path of 250 characters.\<close>

definition sample_state_long_path :: vmm_state where
  "sample_state_long_path = sample_state\<lparr>szPythonPath := replicate 250 CHR ''a''\<rparr>"

text \<open>A registration record as a built-in module hands it in: name \<^verbatim>\<open>L"A"\<close>, process scope
  only, list and read.\<close>

definition sample_reginfo :: VMMDLL_PLUGIN_REGINFO where
  "sample_reginfo =
     (PluginManager_Initialize_RegInfoInit sample_extern None sample_state)
       \<lparr> reg_info_wszModuleName := [0x41, 0],
         reg_info_fProcessModule := True,
         reg_fn_pfnList := Some 100,
         reg_fn_pfnRead := Some 101 \<rparr>"

text \<open>The state with that module registered.\<close>

definition sample_state_A :: vmm_state where
  "sample_state_A = snd (PluginManager_Register sample_extern (Some sample_reginfo) sample_state)"

text \<open>Two modules of one native library (handle 7): \<^verbatim>\<open>L"B"\<close>, root scope, and \<^verbatim>\<open>L"C"\<close>,
  process scope, both with list, notify and close.\<close>

definition sample_reginfo_B :: VMMDLL_PLUGIN_REGINFO where
  "sample_reginfo_B =
     (PluginManager_Initialize_RegInfoInit sample_extern (Some 7) sample_state)
       \<lparr> reg_info_wszModuleName := [0x42, 0],
         reg_info_fRootModule := True,
         reg_fn_pfnList := Some 200,
         reg_fn_pfnNotify := Some 203,
         reg_fn_pfnClose := Some 204 \<rparr>"

definition sample_reginfo_C :: VMMDLL_PLUGIN_REGINFO where
  "sample_reginfo_C =
     (PluginManager_Initialize_RegInfoInit sample_extern (Some 7) sample_state)
       \<lparr> reg_info_wszModuleName := [0x43, 0],
         reg_info_fProcessModule := True,
         reg_fn_pfnList := Some 300,
         reg_fn_pfnNotify := Some 303,
         reg_fn_pfnClose := Some 304 \<rparr>"

text \<open>The state after registering A, B and C in this order, with an empty trace.\<close>

definition sample_state_ABC :: vmm_state where
  "sample_state_ABC =
     (snd (PluginManager_Register sample_extern (Some sample_reginfo_C)
        (snd (PluginManager_Register sample_extern (Some sample_reginfo_B) sample_state_A))))
       \<lparr> trace := [] \<rparr>"

definition entry_A :: PLUGIN_LISTENTRY where
  "entry_A = \<lparr> hDLL = None, wszModuleName = [0x41], fRootModule = False, fProcessModule = True,
       pfnList = Some 100, pfnRead = Some 101, pfnWrite = None, pfnNotify = None,
       pfnClose = None \<rparr>"

definition entry_B :: PLUGIN_LISTENTRY where
  "entry_B = \<lparr> hDLL = Some 7, wszModuleName = [0x42], fRootModule = True, fProcessModule = False,
       pfnList = Some 200, pfnRead = None, pfnWrite = None, pfnNotify = Some 203,
       pfnClose = Some 204 \<rparr>"

definition entry_C :: PLUGIN_LISTENTRY where
  "entry_C = \<lparr> hDLL = Some 7, wszModuleName = [0x43], fRootModule = False, fProcessModule = True,
       pfnList = Some 300, pfnRead = None, pfnWrite = None, pfnNotify = Some 303,
       pfnClose = Some 304 \<rparr>"

text \<open>The sample environment with one built-in initializer that registers module A.\<close>

definition sample_extern_builtin :: extern where
  "sample_extern_builtin =
     sample_extern
       \<lparr> M_Virt2Phys_Initialize :=
           (\<lambda>ri. CallRegister
                   (Some (ri\<lparr> reg_info_wszModuleName := [0x41, 0],
                              reg_info_fProcessModule := True,
                              reg_fn_pfnList := Some 100,
                              reg_fn_pfnRead := Some 101 \<rparr>))
                   (\<lambda>registered. Return)) \<rparr>"

text \<open>The same with one file in the plugins directory, which does not load.\<close>

definition sample_extern_plugins :: extern where
  "sample_extern_plugins = sample_extern_builtin \<lparr> os_FindFiles := (\<lambda>pattern. [''m_x.dll'']) \<rparr>"

text \<open>The sample environment with an interpreter in the \<^verbatim>\<open>python\<close> sub-directory (handle
  1), its companion \<^verbatim>\<open>python3.dll\<close> (handle 2) and a bridge library (handle 3) whose entry
  point returns without registering anything.\<close>

definition sample_extern_python :: extern where
  "sample_extern_python =
     sample_extern
       \<lparr> os_LoadLibraryExA :=
           (\<lambda>path flags.
              if path = ''C:'' @ backslash @ ''python'' @ backslash @ ''python36.dll'' then Some 1
              else if path = ''C:'' @ backslash @ ''python3.dll'' then Some 2
              else None),
         os_LoadLibraryA := (\<lambda>path. if path = ''vmmpycplugin.dll'' then Some 3 else None),
         os_GetProcAddress :=
           (\<lambda>h name. if h = 3 \<and> name = ''InitializeVmmPlugin'' then Some (\<lambda>ri. Return)
                      else None) \<rparr>"

text \<open>The same, but the bridge library does not export the entry point.\<close>

definition sample_extern_python_no_entry :: extern where
  "sample_extern_python_no_entry = sample_extern_python \<lparr> os_GetProcAddress := (\<lambda>h name. None) \<rparr>"

section \<open>Properties\<close>

subsection \<open>Wide strings\<close>

lemma wcsicmp_units_zero_iff:
  "wcsicmp_units a b = 0 \<longleftrightarrow> map towlower a = map towlower b"
  by (induction a b rule: wcsicmp_units.induct) auto

lemma wcsicmp_zero_iff:
  "wcsicmp a b = 0 \<longleftrightarrow> map towlower (wcs a) = map towlower (wcs b)"
  by (simp add: wcsicmp_def wcsicmp_units_zero_iff)

lemma wcs_idem [simp]: "wcs (wcs w) = wcs w"
  by (simp add: wcs_def)

lemma wcsicmp_wcs_right [simp]: "wcsicmp a (wcs b) = wcsicmp a b"
  by (simp add: wcsicmp_def)

subsection \<open>Registration\<close>

lemma ModuleExists_loop_name:
  "ModuleExists_loop None (Some w) ms \<longleftrightarrow> (\<exists>m\<in>set ms. wcsicmp w (wszModuleName m) = 0)"
  by (induction ms) auto

lemma ModuleExists_loop_handle:
  "ModuleExists_loop (Some h) None ms \<longleftrightarrow> (\<exists>m\<in>set ms. hDLL m = Some h)"
  by (induction ms) auto

lemma LocalAlloc_list [simp]: "pVmmVfsModuleList (snd (LocalAlloc s)) = pVmmVfsModuleList s"
  by (simp add: LocalAlloc_def record_event_def split: list.splits)

lemma Register_accepts_iff:
  "fst (PluginManager_Register E pRegInfo s) \<longleftrightarrow>
     (case pRegInfo of
        None \<Rightarrow> False
      | Some ri \<Rightarrow>
          magic ri = VMMDLL_PLUGIN_REGINFO_MAGIC E
          \<and> wVersion ri \<le> VMMDLL_PLUGIN_REGINFO_VERSION E
          \<and> reg_fn_pfnList ri \<noteq> None
          \<and> first_unit_nonzero (reg_info_wszModuleName ri)
          \<and> wcslen (reg_info_wszModuleName ri) \<le> 31
          \<and> (\<forall>m\<in>set (pVmmVfsModuleList s).
                wcsicmp (reg_info_wszModuleName ri) (wszModuleName m) \<noteq> 0)
          \<and> fst (LocalAlloc s)
          \<and> (reg_info_fRootModule ri \<or> reg_info_fProcessModule ri))"
  by (auto simp: PluginManager_Register_def PluginManager_ModuleExists_def ModuleExists_loop_name
      split: option.splits prod.splits)

lemma Register_list:
  "pVmmVfsModuleList (snd (PluginManager_Register E pRegInfo s)) =
     (case pRegInfo of
        None \<Rightarrow> pVmmVfsModuleList s
      | Some ri \<Rightarrow>
          if fst (PluginManager_Register E pRegInfo s)
          then new_entry ri # pVmmVfsModuleList s
          else pVmmVfsModuleList s)"
proof (cases pRegInfo)
  case None
  then show ?thesis by (simp add: PluginManager_Register_def)
next
  case (Some ri)
  obtain ok s1 where a: "LocalAlloc s = (ok, s1)" by (cases "LocalAlloc s")
  then have "pVmmVfsModuleList s1 = pVmmVfsModuleList s"
    using LocalAlloc_list [of s] by simp
  with Some a show ?thesis
    by (simp add: PluginManager_Register_def)
qed

lemma sample_state_A_list:
  "pVmmVfsModuleList sample_state_A = [new_entry sample_reginfo]"
  by (simp add: sample_state_A_def Register_list Register_accepts_iff sample_reginfo_def
      sample_state_def sample_extern_def PluginManager_Initialize_RegInfoInit_def
      first_unit_nonzero_def wcslen_def wcs_def LocalAlloc_def)

text \<open>
  C1 (amended). \<^verbatim>\<open>PluginManager_Register\<close> returns success if and only if the record
  pointer is not null, the magic is the expected constant, the version does not exceed the
  supported maximum, the list capability is present, the module name is non-empty and has at
  most 31 code units, the name collides case-insensitively with no registered module, the
  allocation of the entry succeeds and at least one scope flag is set. The declared size is
  not looked at: changing it changes neither the result nor the list. On success the new
  entry is put in front of the list; on failure the list is exactly what it was.
\<close>

theorem C1_register_validation:
  "(fst (PluginManager_Register E pRegInfo s) \<longleftrightarrow>
      (case pRegInfo of
         None \<Rightarrow> False
       | Some ri \<Rightarrow>
           magic ri = VMMDLL_PLUGIN_REGINFO_MAGIC E
           \<and> wVersion ri \<le> VMMDLL_PLUGIN_REGINFO_VERSION E
           \<and> reg_fn_pfnList ri \<noteq> None
           \<and> first_unit_nonzero (reg_info_wszModuleName ri)
           \<and> wcslen (reg_info_wszModuleName ri) \<le> 31
           \<and> (\<forall>m\<in>set (pVmmVfsModuleList s).
                 wcsicmp (reg_info_wszModuleName ri) (wszModuleName m) \<noteq> 0)
           \<and> fst (LocalAlloc s)
           \<and> (reg_info_fRootModule ri \<or> reg_info_fProcessModule ri)))
   \<and> (\<not> fst (PluginManager_Register E pRegInfo s) \<longrightarrow>
        pVmmVfsModuleList (snd (PluginManager_Register E pRegInfo s)) = pVmmVfsModuleList s)
   \<and> (\<forall>ri. pRegInfo = Some ri \<and> fst (PluginManager_Register E pRegInfo s) \<longrightarrow>
        pVmmVfsModuleList (snd (PluginManager_Register E pRegInfo s)) =
          new_entry ri # pVmmVfsModuleList s)
   \<and> (\<forall>ri size'. pRegInfo = Some ri \<longrightarrow>
        fst (PluginManager_Register E (Some (ri\<lparr>wSize := size'\<rparr>)) s) =
          fst (PluginManager_Register E pRegInfo s)
        \<and> pVmmVfsModuleList (snd (PluginManager_Register E (Some (ri\<lparr>wSize := size'\<rparr>)) s)) =
          pVmmVfsModuleList (snd (PluginManager_Register E pRegInfo s)))"
proof (intro conjI allI impI)
  show "fst (PluginManager_Register E pRegInfo s) \<longleftrightarrow>
      (case pRegInfo of
         None \<Rightarrow> False
       | Some ri \<Rightarrow>
           magic ri = VMMDLL_PLUGIN_REGINFO_MAGIC E
           \<and> wVersion ri \<le> VMMDLL_PLUGIN_REGINFO_VERSION E
           \<and> reg_fn_pfnList ri \<noteq> None
           \<and> first_unit_nonzero (reg_info_wszModuleName ri)
           \<and> wcslen (reg_info_wszModuleName ri) \<le> 31
           \<and> (\<forall>m\<in>set (pVmmVfsModuleList s).
                 wcsicmp (reg_info_wszModuleName ri) (wszModuleName m) \<noteq> 0)
           \<and> fst (LocalAlloc s)
           \<and> (reg_info_fRootModule ri \<or> reg_info_fProcessModule ri))"
    by (rule Register_accepts_iff)
next
  assume "\<not> fst (PluginManager_Register E pRegInfo s)"
  then show "pVmmVfsModuleList (snd (PluginManager_Register E pRegInfo s)) = pVmmVfsModuleList s"
    by (cases pRegInfo) (simp_all add: Register_list)
next
  fix ri
  assume "pRegInfo = Some ri \<and> fst (PluginManager_Register E pRegInfo s)"
  then show "pVmmVfsModuleList (snd (PluginManager_Register E pRegInfo s)) =
          new_entry ri # pVmmVfsModuleList s"
    by (auto simp: Register_list)
next
  fix ri size'
  assume "pRegInfo = Some ri"
  then show "fst (PluginManager_Register E (Some (ri\<lparr>wSize := size'\<rparr>)) s) =
          fst (PluginManager_Register E pRegInfo s)"
    by (simp add: Register_accepts_iff)
next
  fix ri size'
  assume "pRegInfo = Some ri"
  then show "pVmmVfsModuleList (snd (PluginManager_Register E (Some (ri\<lparr>wSize := size'\<rparr>)) s)) =
          pVmmVfsModuleList (snd (PluginManager_Register E pRegInfo s))"
    by (simp add: Register_list Register_accepts_iff new_entry_def)
qed

text \<open>The sample record is accepted by the empty registry; handed in a second time with
  the name in lower case it is refused and the list stays as it was.\<close>

theorem C1_register_validation_witness:
  "fst (PluginManager_Register sample_extern (Some sample_reginfo) sample_state)
   \<and> pVmmVfsModuleList
       (snd (PluginManager_Register sample_extern
          (Some (sample_reginfo\<lparr>reg_info_wszModuleName := [0x61, 0]\<rparr>)) sample_state_A)) =
     pVmmVfsModuleList sample_state_A"
proof
  note c1 = C1_register_validation [of sample_extern "Some sample_reginfo" sample_state]
  show "fst (PluginManager_Register sample_extern (Some sample_reginfo) sample_state)"
    by (rule iffD2 [OF conjunct1 [OF c1]])
      (simp add: sample_reginfo_def sample_state_def sample_extern_def
        PluginManager_Initialize_RegInfoInit_def first_unit_nonzero_def wcslen_def wcs_def
        LocalAlloc_def)
next
  note c1 = C1_register_validation [of sample_extern
      "Some (sample_reginfo\<lparr>reg_info_wszModuleName := [0x61, 0]\<rparr>)" sample_state_A]
  have "\<not> fst (PluginManager_Register sample_extern
          (Some (sample_reginfo\<lparr>reg_info_wszModuleName := [0x61, 0]\<rparr>)) sample_state_A)"
    by (simp add: Register_accepts_iff sample_state_A_list new_entry_def sample_reginfo_def
        wcsicmp_def wcs_def towlower_def)
  then show "pVmmVfsModuleList
       (snd (PluginManager_Register sample_extern
          (Some (sample_reginfo\<lparr>reg_info_wszModuleName := [0x61, 0]\<rparr>)) sample_state_A)) =
     pVmmVfsModuleList sample_state_A"
    by (rule mp [OF conjunct1 [OF conjunct2 [OF c1]], rotated])
qed

text \<open>The claim as stated fails: a record that declares a size other than the supported
  one (here 0, and 0xFFFF, against 0x100) is registered all the same.\<close>

theorem C1_register_validation_counterexample:
  "\<not> (fst (PluginManager_Register sample_extern (Some (sample_reginfo\<lparr>wSize := 0\<rparr>)) sample_state)
        \<longleftrightarrow> spec_registration_valid sample_extern (sample_reginfo\<lparr>wSize := 0\<rparr>) sample_state)
   \<and> \<not> (fst (PluginManager_Register sample_extern (Some (sample_reginfo\<lparr>wSize := 0xFFFF\<rparr>))
             sample_state)
        \<longleftrightarrow> spec_registration_valid sample_extern (sample_reginfo\<lparr>wSize := 0xFFFF\<rparr>)
             sample_state)"
  by (simp add: Register_accepts_iff spec_registration_valid_def sample_reginfo_def
      sample_state_def sample_extern_def PluginManager_Initialize_RegInfoInit_def
      first_unit_nonzero_def wcslen_def wcs_def LocalAlloc_def)

subsection \<open>Lookup and list dispatch\<close>

lemma wcsicmp_sym: "wcsicmp a b = 0 \<longleftrightarrow> wcsicmp b a = 0"
  by (auto simp: wcsicmp_zero_iff)

lemma wcsicmp_trans: "wcsicmp a b = 0 \<Longrightarrow> wcsicmp a c = 0 \<Longrightarrow> wcsicmp b c = 0"
  by (simp add: wcsicmp_zero_iff)

lemma names_distinct_unique:
  "names_distinct ms \<Longrightarrow> m \<in> set ms \<Longrightarrow> m' \<in> set ms
     \<Longrightarrow> wcsicmp (wszModuleName m) (wszModuleName m') = 0 \<Longrightarrow> m = m'"
proof (induction ms)
  case Nil
  then show ?case by simp
next
  case (Cons x xs)
  then show ?case
    using wcsicmp_sym [of "wszModuleName m" "wszModuleName m'"] by auto
qed

lemma names_distinct_same_target:
  assumes "names_distinct ms" "m \<in> set ms" "m' \<in> set ms"
    and "wcsicmp w (wszModuleName m) = 0" "wcsicmp w (wszModuleName m') = 0"
  shows "m = m'"
  using assms(1-3) wcsicmp_trans [OF assms(4,5)] by (rule names_distinct_unique)

lemma spec_lookup_Some:
  "spec_lookup p w ms = Some m \<Longrightarrow>
     m \<in> set ms \<and> scope_matches p m \<and> wcsicmp w (wszModuleName m) = 0"
  unfolding spec_lookup_def by (induction ms) (auto split: if_splits)

lemma List_loop_find:
  "List_loop E p w wp fl ms s =
     (case find (\<lambda>m. scope_matches p m \<and> pfnList m \<noteq> None \<and> wcsicmp w (wszModuleName m) = 0) ms of
        None \<Rightarrow> (False, fl, s)
      | Some m \<Rightarrow>
          (let ctx = PluginManager_ContextInitialize E m p (path_or_empty wp);
               r = call_pfnList E (the (pfnList m)) ctx fl
           in (fst r, snd r, record_event (EvList m ctx) s)))"
  by (induction ms) (auto split: option.splits)

lemma Read_loop_find:
  "Read_loop E p w wp pb cb pcb off ms s =
     (case find (\<lambda>m. scope_matches p m \<and> pfnRead m \<noteq> None \<and> wcsicmp w (wszModuleName m) = 0) ms of
        None \<Rightarrow> (VMMDLL_STATUS_FILE_INVALID, pb, pcb, s)
      | Some m \<Rightarrow>
          (let ctx = PluginManager_ContextInitialize E m p (path_or_empty wp);
               r = call_pfnRead E (the (pfnRead m)) ctx pb cb pcb off
           in (fst r, fst (snd r), snd (snd r), record_event (EvRead m ctx cb off) s)))"
  by (induction ms) (auto split: option.splits)

lemma Write_loop_find:
  "Write_loop E p w wp pb cb pcb off ms s =
     (case find (\<lambda>m. scope_matches p m \<and> pfnWrite m \<noteq> None \<and> wcsicmp w (wszModuleName m) = 0) ms of
        None \<Rightarrow> (VMMDLL_STATUS_FILE_INVALID, pcb, s)
      | Some m \<Rightarrow>
          (let ctx = PluginManager_ContextInitialize E m p (path_or_empty wp);
               r = call_pfnWrite E (the (pfnWrite m)) ctx pb cb pcb off
           in (fst r, snd r, record_event (EvWrite m ctx pb cb off) s)))"
  by (induction ms) (auto split: option.splits)

text \<open>The lookup with a capability test added, against the spec's lookup.\<close>

lemma find_cap_none:
  "spec_lookup p w ms = None \<Longrightarrow>
     find (\<lambda>m. scope_matches p m \<and> cap m \<and> wcsicmp w (wszModuleName m) = 0) ms = None"
  unfolding spec_lookup_def by (induction ms) (auto split: if_splits)

lemma find_cap_present:
  "spec_lookup p w ms = Some m \<Longrightarrow> cap m \<Longrightarrow>
     find (\<lambda>m. scope_matches p m \<and> cap m \<and> wcsicmp w (wszModuleName m) = 0) ms = Some m"
  unfolding spec_lookup_def by (induction ms) (auto split: if_splits)

lemma find_cap_absent:
  assumes "names_distinct ms" "spec_lookup p w ms = Some m" "\<not> cap m"
  shows "find (\<lambda>m. scope_matches p m \<and> cap m \<and> wcsicmp w (wszModuleName m) = 0) ms = None"
proof -
  have m: "m \<in> set ms" "wcsicmp w (wszModuleName m) = 0"
    using spec_lookup_Some [OF assms(2)] by simp_all
  have "\<not> (scope_matches p m' \<and> cap m' \<and> wcsicmp w (wszModuleName m') = 0)"
    if "m' \<in> set ms" for m'
    using names_distinct_same_target [OF assms(1) m(1) that m(2)] assms(3) by auto
  then show ?thesis by (simp add: find_None_iff)
qed

lemma registry_inv_pfnList:
  "registry_inv ms \<Longrightarrow> m \<in> set ms \<Longrightarrow> \<exists>f. pfnList m = Some f"
  by (auto simp: registry_inv_def)

lemma record_event_trace: "record_event e s = s\<lparr>trace := trace s @ [e]\<rparr>"
  by (simp add: record_event_def)

lemma List_no_match:
  "spec_lookup p w (pVmmVfsModuleList s) = None \<Longrightarrow>
     PluginManager_List E p w wp fl s = (False, fl, s)"
  by (simp add: PluginManager_List_def List_loop_find find_cap_none)

lemma List_match:
  assumes "spec_lookup p w (pVmmVfsModuleList s) = Some m" "pfnList m = Some f"
  shows "PluginManager_List E p w wp fl s =
     (fst (call_pfnList E f (PluginManager_ContextInitialize E m p (path_or_empty wp)) fl),
      snd (call_pfnList E f (PluginManager_ContextInitialize E m p (path_or_empty wp)) fl),
      s\<lparr>trace := trace s @ [EvList m (PluginManager_ContextInitialize E m p (path_or_empty wp))]\<rparr>)"
proof -
  have "find (\<lambda>m. scope_matches p m \<and> pfnList m \<noteq> None \<and> wcsicmp w (wszModuleName m) = 0)
          (pVmmVfsModuleList s) = Some m"
    using assms by (intro find_cap_present) simp_all
  with assms(2) show ?thesis
    by (simp add: PluginManager_List_def List_loop_find Let_def record_event_trace)
qed

lemma process_only_lookup:
  assumes "names_distinct ms" "m \<in> set ms" "fProcessModule m" "\<not> fRootModule m"
    and "wcsicmp w (wszModuleName m) = 0"
  shows "spec_lookup None w ms = None" and "spec_lookup (Some p) w ms = Some m"
proof -
  show "spec_lookup None w ms = None"
  proof (cases "spec_lookup None w ms")
    case None
    then show ?thesis .
  next
    case (Some m')
    from spec_lookup_Some [OF Some] have m': "m' \<in> set ms" "scope_matches None m'"
      "wcsicmp w (wszModuleName m') = 0" by simp_all
    have "m = m'"
      using assms(1,2) m'(1) assms(5) m'(3) by (rule names_distinct_same_target)
    with m'(2) assms(4) show ?thesis by (simp add: scope_matches_def)
  qed
  have "scope_matches (Some p) m" using assms(3) by (simp add: scope_matches_def)
  with assms(2,5) obtain m' where f: "spec_lookup (Some p) w ms = Some m'"
    unfolding spec_lookup_def by (cases "find (\<lambda>m. scope_matches (Some p) m
      \<and> wcsicmp w (wszModuleName m) = 0) ms") (auto simp: find_None_iff)
  from spec_lookup_Some [OF f] have m': "m' \<in> set ms" "wcsicmp w (wszModuleName m') = 0"
    by simp_all
  have "m = m'"
    using assms(1,2) m'(1) assms(5) m'(2) by (rule names_distinct_same_target)
  with f show "spec_lookup (Some p) w ms = Some m" by simp
qed

text \<open>
  C2. For a registry as registration builds it (names unique, every entry with a list
  capability), \<^verbatim>\<open>PluginManager_List\<close> calls the list function of the first entry whose scope
  matches the call shape and whose name matches case-insensitively, exactly once, and
  returns what that call returns; without such an entry it returns \<^verbatim>\<open>FALSE\<close> and the file
  list and the state are untouched. For an entry that is process scope only, a call without
  process fails and a call with a process invokes that entry's list function exactly once.
\<close>

theorem C2_list_dispatch:
  assumes "registry_inv (pVmmVfsModuleList s)"
  shows "(spec_lookup pProcess wszModule (pVmmVfsModuleList s) = None \<longrightarrow>
            PluginManager_List E pProcess wszModule wszPath pFileList s = (False, pFileList, s))
    \<and> (\<forall>m. spec_lookup pProcess wszModule (pVmmVfsModuleList s) = Some m \<longrightarrow>
          (\<exists>f. pfnList m = Some f
             \<and> PluginManager_List E pProcess wszModule wszPath pFileList s =
                 (fst (call_pfnList E f
                    (PluginManager_ContextInitialize E m pProcess (path_or_empty wszPath)) pFileList),
                  snd (call_pfnList E f
                    (PluginManager_ContextInitialize E m pProcess (path_or_empty wszPath)) pFileList),
                  s\<lparr>trace := trace s @
                     [EvList m (PluginManager_ContextInitialize E m pProcess
                        (path_or_empty wszPath))]\<rparr>)))
    \<and> (\<forall>m\<in>set (pVmmVfsModuleList s).
          fProcessModule m \<and> \<not> fRootModule m \<and> wcsicmp wszModule (wszModuleName m) = 0 \<longrightarrow>
            PluginManager_List E None wszModule wszPath pFileList s = (False, pFileList, s)
            \<and> (\<forall>p. \<exists>f. pfnList m = Some f
                  \<and> PluginManager_List E (Some p) wszModule wszPath pFileList s =
                      (fst (call_pfnList E f
                         (PluginManager_ContextInitialize E m (Some p) (path_or_empty wszPath))
                         pFileList),
                       snd (call_pfnList E f
                         (PluginManager_ContextInitialize E m (Some p) (path_or_empty wszPath))
                         pFileList),
                       s\<lparr>trace := trace s @
                          [EvList m (PluginManager_ContextInitialize E m (Some p)
                             (path_or_empty wszPath))]\<rparr>)))"
proof (intro conjI allI impI ballI)
  assume "spec_lookup pProcess wszModule (pVmmVfsModuleList s) = None"
  then show "PluginManager_List E pProcess wszModule wszPath pFileList s = (False, pFileList, s)"
    by (rule List_no_match)
next
  fix m
  assume l: "spec_lookup pProcess wszModule (pVmmVfsModuleList s) = Some m"
  then have "m \<in> set (pVmmVfsModuleList s)" by (simp add: spec_lookup_Some)
  with assms obtain f where f: "pfnList m = Some f"
    using registry_inv_pfnList by blast
  show "\<exists>f. pfnList m = Some f
             \<and> PluginManager_List E pProcess wszModule wszPath pFileList s =
                 (fst (call_pfnList E f
                    (PluginManager_ContextInitialize E m pProcess (path_or_empty wszPath)) pFileList),
                  snd (call_pfnList E f
                    (PluginManager_ContextInitialize E m pProcess (path_or_empty wszPath)) pFileList),
                  s\<lparr>trace := trace s @
                     [EvList m (PluginManager_ContextInitialize E m pProcess
                        (path_or_empty wszPath))]\<rparr>)"
    using f List_match [OF l f] by blast
next
  fix m
  assume m: "m \<in> set (pVmmVfsModuleList s)"
    and "fProcessModule m \<and> \<not> fRootModule m \<and> wcsicmp wszModule (wszModuleName m) = 0"
  then have p: "fProcessModule m" "\<not> fRootModule m" "wcsicmp wszModule (wszModuleName m) = 0"
    by simp_all
  have nd: "names_distinct (pVmmVfsModuleList s)"
    using assms by (simp add: registry_inv_def)
  show "PluginManager_List E None wszModule wszPath pFileList s = (False, pFileList, s)"
    using process_only_lookup(1) [OF nd m p] by (rule List_no_match)
  fix p
  obtain f where f: "pfnList m = Some f"
    using assms m registry_inv_pfnList by blast
  show "\<exists>f. pfnList m = Some f
                  \<and> PluginManager_List E (Some p) wszModule wszPath pFileList s =
                      (fst (call_pfnList E f
                         (PluginManager_ContextInitialize E m (Some p) (path_or_empty wszPath))
                         pFileList),
                       snd (call_pfnList E f
                         (PluginManager_ContextInitialize E m (Some p) (path_or_empty wszPath))
                         pFileList),
                       s\<lparr>trace := trace s @
                          [EvList m (PluginManager_ContextInitialize E m (Some p)
                             (path_or_empty wszPath))]\<rparr>)"
    using f List_match [OF process_only_lookup(2) [OF nd m p] f] by blast
qed

lemma sample_state_A_inv: "registry_inv (pVmmVfsModuleList sample_state_A)"
  by (simp add: sample_state_A_list registry_inv_def new_entry_def sample_reginfo_def)

text \<open>Module A of the sample state is process scope only: asked for as \<^verbatim>\<open>L"a"\<close>, the call
  without process fails and the call for process 4 invokes its list function once.\<close>

theorem C2_list_dispatch_witness:
  "registry_inv (pVmmVfsModuleList sample_state_A)
   \<and> PluginManager_List sample_extern None [0x61, 0] None [] sample_state_A
       = (False, [], sample_state_A)
   \<and> (\<exists>f. pfnList (new_entry sample_reginfo) = Some f
         \<and> PluginManager_List sample_extern (Some \<lparr>dwPID = 4\<rparr>) [0x61, 0] None [] sample_state_A =
             (fst (call_pfnList sample_extern f
                (PluginManager_ContextInitialize sample_extern (new_entry sample_reginfo)
                   (Some \<lparr>dwPID = 4\<rparr>) (path_or_empty None)) []),
              snd (call_pfnList sample_extern f
                (PluginManager_ContextInitialize sample_extern (new_entry sample_reginfo)
                   (Some \<lparr>dwPID = 4\<rparr>) (path_or_empty None)) []),
              sample_state_A\<lparr>trace := trace sample_state_A @
                 [EvList (new_entry sample_reginfo)
                    (PluginManager_ContextInitialize sample_extern (new_entry sample_reginfo)
                       (Some \<lparr>dwPID = 4\<rparr>) (path_or_empty None))]\<rparr>))"
proof -
  have mem: "new_entry sample_reginfo \<in> set (pVmmVfsModuleList sample_state_A)"
    by (simp add: sample_state_A_list)
  have props: "fProcessModule (new_entry sample_reginfo) \<and> \<not> fRootModule (new_entry sample_reginfo)
      \<and> wcsicmp [0x61, 0] (wszModuleName (new_entry sample_reginfo)) = 0"
    by (simp add: new_entry_def sample_reginfo_def PluginManager_Initialize_RegInfoInit_def
        wcsicmp_def wcs_def towlower_def)
  note c2 = C2_list_dispatch [OF sample_state_A_inv, of None "[0x61, 0]" sample_extern None "[]"]
  note both = mp [OF bspec [OF conjunct2 [OF conjunct2 [OF c2]] mem] props]
  show ?thesis
    using sample_state_A_inv conjunct1 [OF both] spec [OF conjunct2 [OF both], of "\<lparr>dwPID = 4\<rparr>"]
    by (intro conjI)
qed

subsection \<open>Read and write dispatch\<close>

lemma Read_no_match:
  "spec_lookup p w (pVmmVfsModuleList s) = None \<Longrightarrow>
     PluginManager_Read E p w wp pb cb pcb off s = (VMMDLL_STATUS_FILE_INVALID, pb, pcb, s)"
  by (simp add: PluginManager_Read_def Read_loop_find find_cap_none)

lemma Read_no_capability:
  "names_distinct (pVmmVfsModuleList s) \<Longrightarrow> spec_lookup p w (pVmmVfsModuleList s) = Some m
     \<Longrightarrow> pfnRead m = None
     \<Longrightarrow> PluginManager_Read E p w wp pb cb pcb off s = (VMMDLL_STATUS_FILE_INVALID, pb, pcb, s)"
  unfolding PluginManager_Read_def Read_loop_find
  by (subst find_cap_absent [where cap = "\<lambda>m. pfnRead m \<noteq> None"]) simp_all

lemma Read_match:
  assumes "spec_lookup p w (pVmmVfsModuleList s) = Some m" "pfnRead m = Some f"
  shows "PluginManager_Read E p w wp pb cb pcb off s =
     (fst (call_pfnRead E f (PluginManager_ContextInitialize E m p (path_or_empty wp))
             pb cb pcb off),
      fst (snd (call_pfnRead E f (PluginManager_ContextInitialize E m p (path_or_empty wp))
             pb cb pcb off)),
      snd (snd (call_pfnRead E f (PluginManager_ContextInitialize E m p (path_or_empty wp))
             pb cb pcb off)),
      s\<lparr>trace := trace s @
         [EvRead m (PluginManager_ContextInitialize E m p (path_or_empty wp)) cb off]\<rparr>)"
proof -
  have "find (\<lambda>m. scope_matches p m \<and> pfnRead m \<noteq> None \<and> wcsicmp w (wszModuleName m) = 0)
          (pVmmVfsModuleList s) = Some m"
    using assms by (intro find_cap_present) simp_all
  with assms(2) show ?thesis
    by (simp add: PluginManager_Read_def Read_loop_find Let_def record_event_trace)
qed

lemma Write_no_match:
  "spec_lookup p w (pVmmVfsModuleList s) = None \<Longrightarrow>
     PluginManager_Write E p w wp pb cb pcb off s = (VMMDLL_STATUS_FILE_INVALID, pcb, s)"
  by (simp add: PluginManager_Write_def Write_loop_find find_cap_none)

lemma Write_no_capability:
  "names_distinct (pVmmVfsModuleList s) \<Longrightarrow> spec_lookup p w (pVmmVfsModuleList s) = Some m
     \<Longrightarrow> pfnWrite m = None
     \<Longrightarrow> PluginManager_Write E p w wp pb cb pcb off s = (VMMDLL_STATUS_FILE_INVALID, pcb, s)"
  unfolding PluginManager_Write_def Write_loop_find
  by (subst find_cap_absent [where cap = "\<lambda>m. pfnWrite m \<noteq> None"]) simp_all

lemma Write_match:
  assumes "spec_lookup p w (pVmmVfsModuleList s) = Some m" "pfnWrite m = Some f"
  shows "PluginManager_Write E p w wp pb cb pcb off s =
     (fst (call_pfnWrite E f (PluginManager_ContextInitialize E m p (path_or_empty wp))
             pb cb pcb off),
      snd (call_pfnWrite E f (PluginManager_ContextInitialize E m p (path_or_empty wp))
             pb cb pcb off),
      s\<lparr>trace := trace s @
         [EvWrite m (PluginManager_ContextInitialize E m p (path_or_empty wp)) pb cb off]\<rparr>)"
proof -
  have "find (\<lambda>m. scope_matches p m \<and> pfnWrite m \<noteq> None \<and> wcsicmp w (wszModuleName m) = 0)
          (pVmmVfsModuleList s) = Some m"
    using assms by (intro find_cap_present) simp_all
  with assms(2) show ?thesis
    by (simp add: PluginManager_Write_def Write_loop_find Let_def record_event_trace)
qed

text \<open>
  C3 (amended). For a registry as registration builds it: when the scope/name lookup finds
  a module without read (write) capability, \<^verbatim>\<open>PluginManager_Read\<close> (\<^verbatim>\<open>PluginManager_Write\<close>)
  returns exactly what it returns when no module matches: the invalid-file status, which
  differs from the success status, with buffer, byte count and state untouched. When the
  module found has the capability, status, buffer and byte count are what the one call of
  the module's function leaves; the manager does not look at the status before handing
  the byte count back.
\<close>

theorem C3_read_write_invalid_target:
  assumes "registry_inv (pVmmVfsModuleList s)"
  shows "VMMDLL_STATUS_SUCCESS \<noteq> VMMDLL_STATUS_FILE_INVALID
    \<and> (spec_lookup pProcess wszModule (pVmmVfsModuleList s) = None
         \<or> (\<exists>m. spec_lookup pProcess wszModule (pVmmVfsModuleList s) = Some m \<and> pfnRead m = None)
       \<longrightarrow> PluginManager_Read E pProcess wszModule wszPath pb cb pcbRead cbOffset s
             = (VMMDLL_STATUS_FILE_INVALID, pb, pcbRead, s))
    \<and> (spec_lookup pProcess wszModule (pVmmVfsModuleList s) = None
         \<or> (\<exists>m. spec_lookup pProcess wszModule (pVmmVfsModuleList s) = Some m \<and> pfnWrite m = None)
       \<longrightarrow> PluginManager_Write E pProcess wszModule wszPath pb cb pcbWrite cbOffset s
             = (VMMDLL_STATUS_FILE_INVALID, pcbWrite, s))
    \<and> (\<forall>m f. spec_lookup pProcess wszModule (pVmmVfsModuleList s) = Some m \<and> pfnRead m = Some f
         \<longrightarrow> PluginManager_Read E pProcess wszModule wszPath pb cb pcbRead cbOffset s =
              (fst (call_pfnRead E f
                 (PluginManager_ContextInitialize E m pProcess (path_or_empty wszPath))
                 pb cb pcbRead cbOffset),
               fst (snd (call_pfnRead E f
                 (PluginManager_ContextInitialize E m pProcess (path_or_empty wszPath))
                 pb cb pcbRead cbOffset)),
               snd (snd (call_pfnRead E f
                 (PluginManager_ContextInitialize E m pProcess (path_or_empty wszPath))
                 pb cb pcbRead cbOffset)),
               s\<lparr>trace := trace s @
                  [EvRead m (PluginManager_ContextInitialize E m pProcess (path_or_empty wszPath))
                     cb cbOffset]\<rparr>))
    \<and> (\<forall>m f. spec_lookup pProcess wszModule (pVmmVfsModuleList s) = Some m \<and> pfnWrite m = Some f
         \<longrightarrow> PluginManager_Write E pProcess wszModule wszPath pb cb pcbWrite cbOffset s =
              (fst (call_pfnWrite E f
                 (PluginManager_ContextInitialize E m pProcess (path_or_empty wszPath))
                 pb cb pcbWrite cbOffset),
               snd (call_pfnWrite E f
                 (PluginManager_ContextInitialize E m pProcess (path_or_empty wszPath))
                 pb cb pcbWrite cbOffset),
               s\<lparr>trace := trace s @
                  [EvWrite m (PluginManager_ContextInitialize E m pProcess (path_or_empty wszPath))
                     pb cb cbOffset]\<rparr>))"
proof -
  have nd: "names_distinct (pVmmVfsModuleList s)"
    using assms by (simp add: registry_inv_def)
  have 1: "VMMDLL_STATUS_SUCCESS \<noteq> VMMDLL_STATUS_FILE_INVALID"
    by (simp add: VMMDLL_STATUS_SUCCESS_def VMMDLL_STATUS_FILE_INVALID_def)
  have 2: "PluginManager_Read E pProcess wszModule wszPath pb cb pcbRead cbOffset s
             = (VMMDLL_STATUS_FILE_INVALID, pb, pcbRead, s)"
    if "spec_lookup pProcess wszModule (pVmmVfsModuleList s) = None
         \<or> (\<exists>m. spec_lookup pProcess wszModule (pVmmVfsModuleList s) = Some m \<and> pfnRead m = None)"
    using that Read_no_match Read_no_capability [OF nd] by blast
  have 3: "PluginManager_Write E pProcess wszModule wszPath pb cb pcbWrite cbOffset s
             = (VMMDLL_STATUS_FILE_INVALID, pcbWrite, s)"
    if "spec_lookup pProcess wszModule (pVmmVfsModuleList s) = None
         \<or> (\<exists>m. spec_lookup pProcess wszModule (pVmmVfsModuleList s) = Some m \<and> pfnWrite m = None)"
    using that Write_no_match Write_no_capability [OF nd] by blast
  show ?thesis
  proof (intro conjI allI impI)
    show "VMMDLL_STATUS_SUCCESS \<noteq> VMMDLL_STATUS_FILE_INVALID" by (rule 1)
  next
    assume "spec_lookup pProcess wszModule (pVmmVfsModuleList s) = None
         \<or> (\<exists>m. spec_lookup pProcess wszModule (pVmmVfsModuleList s) = Some m \<and> pfnRead m = None)"
    then show "PluginManager_Read E pProcess wszModule wszPath pb cb pcbRead cbOffset s
             = (VMMDLL_STATUS_FILE_INVALID, pb, pcbRead, s)" by (rule 2)
  next
    assume "spec_lookup pProcess wszModule (pVmmVfsModuleList s) = None
         \<or> (\<exists>m. spec_lookup pProcess wszModule (pVmmVfsModuleList s) = Some m \<and> pfnWrite m = None)"
    then show "PluginManager_Write E pProcess wszModule wszPath pb cb pcbWrite cbOffset s
             = (VMMDLL_STATUS_FILE_INVALID, pcbWrite, s)" by (rule 3)
  next
    fix m f
    assume "spec_lookup pProcess wszModule (pVmmVfsModuleList s) = Some m \<and> pfnRead m = Some f"
    then show "PluginManager_Read E pProcess wszModule wszPath pb cb pcbRead cbOffset s =
              (fst (call_pfnRead E f
                 (PluginManager_ContextInitialize E m pProcess (path_or_empty wszPath))
                 pb cb pcbRead cbOffset),
               fst (snd (call_pfnRead E f
                 (PluginManager_ContextInitialize E m pProcess (path_or_empty wszPath))
                 pb cb pcbRead cbOffset)),
               snd (snd (call_pfnRead E f
                 (PluginManager_ContextInitialize E m pProcess (path_or_empty wszPath))
                 pb cb pcbRead cbOffset)),
               s\<lparr>trace := trace s @
                  [EvRead m (PluginManager_ContextInitialize E m pProcess (path_or_empty wszPath))
                     cb cbOffset]\<rparr>)"
      using Read_match by blast
  next
    fix m f
    assume "spec_lookup pProcess wszModule (pVmmVfsModuleList s) = Some m \<and> pfnWrite m = Some f"
    then show "PluginManager_Write E pProcess wszModule wszPath pb cb pcbWrite cbOffset s =
              (fst (call_pfnWrite E f
                 (PluginManager_ContextInitialize E m pProcess (path_or_empty wszPath))
                 pb cb pcbWrite cbOffset),
               snd (call_pfnWrite E f
                 (PluginManager_ContextInitialize E m pProcess (path_or_empty wszPath))
                 pb cb pcbWrite cbOffset),
               s\<lparr>trace := trace s @
                  [EvWrite m (PluginManager_ContextInitialize E m pProcess (path_or_empty wszPath))
                     pb cb cbOffset]\<rparr>)"
      using Write_match by blast
  qed
qed

lemma sample_lookup_a:
  "spec_lookup (Some \<lparr>dwPID = 4\<rparr>) [0x61, 0] (pVmmVfsModuleList sample_state_A)
     = Some (new_entry sample_reginfo)"
  by (simp add: spec_lookup_def sample_state_A_list scope_matches_def new_entry_def
      sample_reginfo_def PluginManager_Initialize_RegInfoInit_def wcsicmp_def wcs_def towlower_def)

text \<open>Module A of the sample state has no write function: a write to it returns what a
  write to an unknown module returns, and the byte count cell keeps its 7. A read goes to
  A's read function and hands back what that leaves.\<close>

theorem C3_read_write_invalid_target_witness:
  "registry_inv (pVmmVfsModuleList sample_state_A)
   \<and> PluginManager_Write sample_extern (Some \<lparr>dwPID = 4\<rparr>) [0x61, 0] None [1, 2] 2 7 0 sample_state_A
       = (VMMDLL_STATUS_FILE_INVALID, 7, sample_state_A)
   \<and> PluginManager_Write sample_extern (Some \<lparr>dwPID = 4\<rparr>) [0x62, 0] None [1, 2] 2 7 0 sample_state_A
       = (VMMDLL_STATUS_FILE_INVALID, 7, sample_state_A)
   \<and> PluginManager_Read sample_extern (Some \<lparr>dwPID = 4\<rparr>) [0x61, 0] None [1, 2] 2 7 0 sample_state_A
       = (VMMDLL_STATUS_FILE_INVALID, [1, 2], 5,
          sample_state_A\<lparr>trace := trace sample_state_A @
            [EvRead (new_entry sample_reginfo)
               (PluginManager_ContextInitialize sample_extern (new_entry sample_reginfo)
                  (Some \<lparr>dwPID = 4\<rparr>) (path_or_empty None)) 2 0]\<rparr>)"
proof -
  note c3a = C3_read_write_invalid_target [OF sample_state_A_inv,
      of "Some \<lparr>dwPID = 4\<rparr>" "[0x61, 0]" sample_extern None "[1, 2]" 2 7 0 7]
  note c3b = C3_read_write_invalid_target [OF sample_state_A_inv,
      of "Some \<lparr>dwPID = 4\<rparr>" "[0x62, 0]" sample_extern None "[1, 2]" 2 7 0 7]
  have a: "spec_lookup (Some \<lparr>dwPID = 4\<rparr>) [0x61, 0] (pVmmVfsModuleList sample_state_A) = None
      \<or> (\<exists>m. spec_lookup (Some \<lparr>dwPID = 4\<rparr>) [0x61, 0] (pVmmVfsModuleList sample_state_A) = Some m
            \<and> pfnWrite m = None)"
    by (simp add: sample_lookup_a)
      (simp add: new_entry_def sample_reginfo_def PluginManager_Initialize_RegInfoInit_def)
  have b: "spec_lookup (Some \<lparr>dwPID = 4\<rparr>) [0x62, 0] (pVmmVfsModuleList sample_state_A) = None
      \<or> (\<exists>m. spec_lookup (Some \<lparr>dwPID = 4\<rparr>) [0x62, 0] (pVmmVfsModuleList sample_state_A) = Some m
            \<and> pfnWrite m = None)"
    by (simp add: spec_lookup_def sample_state_A_list scope_matches_def new_entry_def
      sample_reginfo_def PluginManager_Initialize_RegInfoInit_def wcsicmp_def wcs_def towlower_def)
  have r: "spec_lookup (Some \<lparr>dwPID = 4\<rparr>) [0x61, 0] (pVmmVfsModuleList sample_state_A)
        = Some (new_entry sample_reginfo)
      \<and> pfnRead (new_entry sample_reginfo) = Some 101"
    by (simp add: sample_lookup_a) (simp add: new_entry_def sample_reginfo_def)
  have "PluginManager_Read sample_extern (Some \<lparr>dwPID = 4\<rparr>) [0x61, 0] None [1, 2] 2 7 0 sample_state_A
       = (VMMDLL_STATUS_FILE_INVALID, [1, 2], 5,
          sample_state_A\<lparr>trace := trace sample_state_A @
            [EvRead (new_entry sample_reginfo)
               (PluginManager_ContextInitialize sample_extern (new_entry sample_reginfo)
                  (Some \<lparr>dwPID = 4\<rparr>) (path_or_empty None)) 2 0]\<rparr>)"
    using mp [OF spec [OF spec [OF conjunct1 [OF conjunct2 [OF conjunct2 [OF conjunct2 [OF c3a]]]]]] r]
    by (simp add: sample_extern_def)
  then show ?thesis
    using sample_state_A_inv
      mp [OF conjunct1 [OF conjunct2 [OF conjunct2 [OF c3a]]] a]
      mp [OF conjunct1 [OF conjunct2 [OF conjunct2 [OF c3b]]] b]
    by (intro conjI)
qed

text \<open>The claim as stated fails: module A's read function stores a byte count of 5 and
  returns the invalid-file status; \<^verbatim>\<open>PluginManager_Read\<close> hands both back, so the count
  cell, 0 before the call, has been written although the status is not success.\<close>

theorem C3_read_write_invalid_target_counterexample:
  "\<not> spec_count_only_on_success
       (fst (PluginManager_Read sample_extern (Some \<lparr>dwPID = 4\<rparr>) [0x61, 0] None [] 0 0 0
               sample_state_A))
       0
       (fst (snd (snd (PluginManager_Read sample_extern (Some \<lparr>dwPID = 4\<rparr>) [0x61, 0] None [] 0 0 0
               sample_state_A))))"
proof -
  have "pfnRead (new_entry sample_reginfo) = Some 101"
    by (simp add: new_entry_def sample_reginfo_def)
  from Read_match [OF sample_lookup_a this]
  show ?thesis
    by (simp add: spec_count_only_on_success_def sample_extern_def
        VMMDLL_STATUS_SUCCESS_def VMMDLL_STATUS_FILE_INVALID_def)
qed

subsection \<open>Notification\<close>

lemma Notify_loop_trace:
  "Notify_loop fEvent pvEvent cbEvent ms s =
     s\<lparr>trace := trace s @ map (\<lambda>m. EvNotify m fEvent pvEvent cbEvent)
                             (filter (\<lambda>m. pfnNotify m \<noteq> None) ms)\<rparr>"
  by (induction ms arbitrary: s) (simp_all add: record_event_def)

lemma count_notify_events:
  "count_list (map (\<lambda>m. EvNotify m fEvent pvEvent cbEvent) (filter P ms))
     (EvNotify m fEvent pvEvent cbEvent) = (if P m then count_list ms m else 0)"
  by (induction ms) auto

lemma names_distinct_distinct: "names_distinct ms \<Longrightarrow> distinct ms"
proof (induction ms)
  case Nil
  then show ?case by simp
next
  case (Cons x xs)
  have "wcsicmp (wszModuleName x) (wszModuleName x) = 0"
    by (simp add: wcsicmp_zero_iff)
  with Cons show ?case by auto
qed

lemma distinct_count_list_one: "distinct xs \<Longrightarrow> x \<in> set xs \<Longrightarrow> count_list xs x = 1"
  by (induction xs) auto

lemma new_events_append [simp]: "new_events s (s\<lparr>trace := trace s @ es\<rparr>) = es"
  by (simp add: new_events_def)

text \<open>
  C4. \<^verbatim>\<open>PluginManager_Notify\<close> returns \<^verbatim>\<open>TRUE\<close> and calls, in list order, the notify function
  of every entry that has one, with the event id, payload pointer and payload size it was
  given, whatever the entry's scope flags are; nothing else changes. Each entry with a notify
  function is called as often as it occurs in the list, which is exactly once in a registry
  as registration builds it.
\<close>

theorem C4_notify_broadcast:
  "PluginManager_Notify fEvent pvEvent cbEvent s =
     (True, s\<lparr>trace := trace s @ map (\<lambda>m. EvNotify m fEvent pvEvent cbEvent)
                                     (filter (\<lambda>m. pfnNotify m \<noteq> None) (pVmmVfsModuleList s))\<rparr>)
   \<and> (\<forall>m\<in>set (pVmmVfsModuleList s). pfnNotify m \<noteq> None \<longrightarrow>
        count_list (new_events s (snd (PluginManager_Notify fEvent pvEvent cbEvent s)))
          (EvNotify m fEvent pvEvent cbEvent) = count_list (pVmmVfsModuleList s) m)
   \<and> (registry_inv (pVmmVfsModuleList s) \<longrightarrow>
        (\<forall>m\<in>set (pVmmVfsModuleList s). pfnNotify m \<noteq> None \<longrightarrow>
           count_list (new_events s (snd (PluginManager_Notify fEvent pvEvent cbEvent s)))
             (EvNotify m fEvent pvEvent cbEvent) = 1))
   \<and> length (new_events s (snd (PluginManager_Notify fEvent pvEvent cbEvent s)))
       = length (filter (\<lambda>m. pfnNotify m \<noteq> None) (pVmmVfsModuleList s))"
proof -
  have eq: "PluginManager_Notify fEvent pvEvent cbEvent s =
     (True, s\<lparr>trace := trace s @ map (\<lambda>m. EvNotify m fEvent pvEvent cbEvent)
                                     (filter (\<lambda>m. pfnNotify m \<noteq> None) (pVmmVfsModuleList s))\<rparr>)"
    by (simp add: PluginManager_Notify_def Notify_loop_trace)
  have cnt: "count_list (new_events s (snd (PluginManager_Notify fEvent pvEvent cbEvent s)))
          (EvNotify m fEvent pvEvent cbEvent) = count_list (pVmmVfsModuleList s) m"
    if "pfnNotify m \<noteq> None" for m
    using that by (simp add: eq count_notify_events del: count_list.simps)
  have one: "count_list (pVmmVfsModuleList s) m = 1"
    if "registry_inv (pVmmVfsModuleList s)" "m \<in> set (pVmmVfsModuleList s)" for m
    using that names_distinct_distinct [of "pVmmVfsModuleList s"]
    by (simp add: registry_inv_def distinct_count_list_one)
  show ?thesis
    using eq cnt one by (auto simp del: count_list.simps)
qed

lemma new_entry_samples:
  "new_entry sample_reginfo = entry_A"
  "new_entry sample_reginfo_B = entry_B"
  "new_entry sample_reginfo_C = entry_C"
  by (simp_all add: new_entry_def sample_reginfo_def sample_reginfo_B_def sample_reginfo_C_def
      entry_A_def entry_B_def entry_C_def PluginManager_Initialize_RegInfoInit_def wcs_def)

lemma sample_state_ABC_eq:
  "sample_state_ABC =
     \<lparr> pVmmVfsModuleList = [entry_C, entry_B, entry_A], ctxVmm_tpMemoryModel = 3,
       ctxVmm_tpSystem = 2, szPythonPath = [], alloc_outcomes = [], trace = [] \<rparr>"
  by (simp add: sample_state_ABC_def sample_state_A_def PluginManager_Register_def
      new_entry_def sample_reginfo_def sample_reginfo_B_def sample_reginfo_C_def
      sample_state_def sample_extern_def PluginManager_Initialize_RegInfoInit_def
      first_unit_nonzero_def wcslen_def wcs_def LocalAlloc_def record_event_def
      PluginManager_ModuleExists_def wcsicmp_def towlower_def entry_A_def entry_B_def
      entry_C_def)

lemma sample_state_ABC_inv: "registry_inv (pVmmVfsModuleList sample_state_ABC)"
  by (simp add: sample_state_ABC_eq registry_inv_def entry_A_def entry_B_def entry_C_def
      wcsicmp_def wcs_def towlower_def)

text \<open>In the sample state with A, B and C an event reaches B and C, once each, although B
  is root scope and C is process scope; A has no notify function.\<close>

theorem C4_notify_broadcast_witness:
  "registry_inv (pVmmVfsModuleList sample_state_ABC)
   \<and> entry_B \<in> set (pVmmVfsModuleList sample_state_ABC) \<and> pfnNotify entry_B \<noteq> None
   \<and> count_list (new_events sample_state_ABC (snd (PluginManager_Notify 1 (Some 9) 16 sample_state_ABC)))
       (EvNotify entry_B 1 (Some 9) 16) = 1
   \<and> PluginManager_Notify 1 (Some 9) 16 sample_state_ABC =
       (True, sample_state_ABC\<lparr>trace := [EvNotify entry_C 1 (Some 9) 16, EvNotify entry_B 1 (Some 9) 16]\<rparr>)"
proof -
  note c4 = C4_notify_broadcast [of 1 "Some 9" 16 sample_state_ABC]
  have mem: "entry_B \<in> set (pVmmVfsModuleList sample_state_ABC)"
    by (simp add: sample_state_ABC_eq)
  have nfy: "pfnNotify entry_B \<noteq> None"
    by (simp add: entry_B_def)
  have "count_list (new_events sample_state_ABC (snd (PluginManager_Notify 1 (Some 9) 16 sample_state_ABC)))
       (EvNotify entry_B 1 (Some 9) 16) = 1"
    by (rule mp [OF bspec [OF mp [OF conjunct1 [OF conjunct2 [OF conjunct2 [OF c4]]]
        sample_state_ABC_inv] mem] nfy])
  moreover have "PluginManager_Notify 1 (Some 9) 16 sample_state_ABC =
       (True, sample_state_ABC\<lparr>trace := [EvNotify entry_C 1 (Some 9) 16, EvNotify entry_B 1 (Some 9) 16]\<rparr>)"
    using conjunct1 [OF c4]
    by (simp add: sample_state_ABC_eq entry_A_def entry_B_def entry_C_def)
  ultimately show ?thesis
    using sample_state_ABC_inv mem nfy by (intro conjI)
qed

subsection \<open>The call context\<close>

lemma new_events_same [simp]: "new_events s s = []"
  by (simp add: new_events_def)

lemma new_events_single [simp]: "new_events s (s\<lparr>trace := trace s @ [e]\<rparr>) = [e]"
  by (simp add: new_events_def)

lemma List_events:
  "new_events s (snd (snd (PluginManager_List E p w wp fl s))) = [] \<or>
   (\<exists>m\<in>set (pVmmVfsModuleList s).
      new_events s (snd (snd (PluginManager_List E p w wp fl s)))
        = [EvList m (PluginManager_ContextInitialize E m p (path_or_empty wp))])"
  by (auto simp: PluginManager_List_def List_loop_find Let_def record_event_trace find_Some_iff
      split: option.splits)

lemma Read_events:
  "new_events s (snd (snd (snd (PluginManager_Read E p w wp pb cb pcb off s)))) = [] \<or>
   (\<exists>m\<in>set (pVmmVfsModuleList s).
      new_events s (snd (snd (snd (PluginManager_Read E p w wp pb cb pcb off s))))
        = [EvRead m (PluginManager_ContextInitialize E m p (path_or_empty wp)) cb off])"
  by (auto simp: PluginManager_Read_def Read_loop_find Let_def record_event_trace find_Some_iff
      split: option.splits)

lemma Write_events:
  "new_events s (snd (snd (PluginManager_Write E p w wp pb cb pcb off s))) = [] \<or>
   (\<exists>m\<in>set (pVmmVfsModuleList s).
      new_events s (snd (snd (PluginManager_Write E p w wp pb cb pcb off s)))
        = [EvWrite m (PluginManager_ContextInitialize E m p (path_or_empty wp)) pb cb off])"
  by (auto simp: PluginManager_Write_def Write_loop_find Let_def record_event_trace find_Some_iff
      split: option.splits)

lemma ContextInitialize_pProcess:
  "ctx_pProcess (PluginManager_ContextInitialize E m p wp) = (if hDLL m \<noteq> None then None else p)"
  by (simp add: PluginManager_ContextInitialize_def)

text \<open>
  C9. The context built by \<^verbatim>\<open>PluginManager_ContextInitialize\<close> carries the caller's process
  pointer when the module has no library handle and \<^verbatim>\<open>NULL\<close> when it has one, whatever the
  process argument is. Every call that List, Read or Write make through a function pointer
  is a call to an entry of the list with the context built for that very entry, so a module
  with a library handle never gets a process pointer, and a context with a process pointer
  only goes to a built-in module.
\<close>

theorem C9_context_process_isolation:
  "(hDLL pModule \<noteq> None \<longrightarrow>
      ctx_pProcess (PluginManager_ContextInitialize E pModule pProcess wszPath') = None)
   \<and> (hDLL pModule = None \<longrightarrow>
      ctx_pProcess (PluginManager_ContextInitialize E pModule pProcess wszPath') = pProcess)
   \<and> (\<forall>m ctx. EvList m ctx \<in> set (new_events s
                 (snd (snd (PluginManager_List E pProcess wszModule wszPath pFileList s)))) \<longrightarrow>
         m \<in> set (pVmmVfsModuleList s)
         \<and> ctx = PluginManager_ContextInitialize E m pProcess (path_or_empty wszPath)
         \<and> (hDLL m \<noteq> None \<longrightarrow> ctx_pProcess ctx = None)
         \<and> (ctx_pProcess ctx \<noteq> None \<longrightarrow> hDLL m = None))
   \<and> (\<forall>m ctx cb' off'. EvRead m ctx cb' off' \<in> set (new_events s
                 (snd (snd (snd (PluginManager_Read E pProcess wszModule wszPath pb cb pcb
                    cbOffset s))))) \<longrightarrow>
         m \<in> set (pVmmVfsModuleList s)
         \<and> ctx = PluginManager_ContextInitialize E m pProcess (path_or_empty wszPath)
         \<and> (hDLL m \<noteq> None \<longrightarrow> ctx_pProcess ctx = None)
         \<and> (ctx_pProcess ctx \<noteq> None \<longrightarrow> hDLL m = None))
   \<and> (\<forall>m ctx pb' cb' off'. EvWrite m ctx pb' cb' off' \<in> set (new_events s
                 (snd (snd (PluginManager_Write E pProcess wszModule wszPath pb cb pcb
                    cbOffset s)))) \<longrightarrow>
         m \<in> set (pVmmVfsModuleList s)
         \<and> ctx = PluginManager_ContextInitialize E m pProcess (path_or_empty wszPath)
         \<and> (hDLL m \<noteq> None \<longrightarrow> ctx_pProcess ctx = None)
         \<and> (ctx_pProcess ctx \<noteq> None \<longrightarrow> hDLL m = None))"
proof (intro conjI allI impI)
  assume "hDLL pModule \<noteq> None"
  then show "ctx_pProcess (PluginManager_ContextInitialize E pModule pProcess wszPath') = None"
    by (simp add: ContextInitialize_pProcess)
next
  assume "hDLL pModule = None"
  then show "ctx_pProcess (PluginManager_ContextInitialize E pModule pProcess wszPath') = pProcess"
    by (simp add: ContextInitialize_pProcess)
next
  fix m ctx
  assume "EvList m ctx \<in> set (new_events s
                 (snd (snd (PluginManager_List E pProcess wszModule wszPath pFileList s))))"
  with List_events [of s E pProcess wszModule wszPath pFileList]
  have *: "m \<in> set (pVmmVfsModuleList s)
      \<and> ctx = PluginManager_ContextInitialize E m pProcess (path_or_empty wszPath)"
    by auto
  then show "m \<in> set (pVmmVfsModuleList s)"
    and "ctx = PluginManager_ContextInitialize E m pProcess (path_or_empty wszPath)"
    by simp_all
  from * show "ctx_pProcess ctx = None" if "hDLL m \<noteq> None"
    using that by (simp add: ContextInitialize_pProcess)
  from * show "hDLL m = None" if "ctx_pProcess ctx \<noteq> None"
    using that by (simp add: ContextInitialize_pProcess split: if_splits)
next
  fix m ctx cb' off'
  assume "EvRead m ctx cb' off' \<in> set (new_events s
                 (snd (snd (snd (PluginManager_Read E pProcess wszModule wszPath pb cb pcb
                    cbOffset s)))))"
  with Read_events [of s E pProcess wszModule wszPath pb cb pcb cbOffset]
  have *: "m \<in> set (pVmmVfsModuleList s)
      \<and> ctx = PluginManager_ContextInitialize E m pProcess (path_or_empty wszPath)"
    by auto
  then show "m \<in> set (pVmmVfsModuleList s)"
    and "ctx = PluginManager_ContextInitialize E m pProcess (path_or_empty wszPath)"
    by simp_all
  from * show "ctx_pProcess ctx = None" if "hDLL m \<noteq> None"
    using that by (simp add: ContextInitialize_pProcess)
  from * show "hDLL m = None" if "ctx_pProcess ctx \<noteq> None"
    using that by (simp add: ContextInitialize_pProcess split: if_splits)
next
  fix m ctx pb' cb' off'
  assume "EvWrite m ctx pb' cb' off' \<in> set (new_events s
                 (snd (snd (PluginManager_Write E pProcess wszModule wszPath pb cb pcb
                    cbOffset s))))"
  with Write_events [of s E pProcess wszModule wszPath pb cb pcb cbOffset]
  have *: "m \<in> set (pVmmVfsModuleList s)
      \<and> ctx = PluginManager_ContextInitialize E m pProcess (path_or_empty wszPath)"
    by auto
  then show "m \<in> set (pVmmVfsModuleList s)"
    and "ctx = PluginManager_ContextInitialize E m pProcess (path_or_empty wszPath)"
    by simp_all
  from * show "ctx_pProcess ctx = None" if "hDLL m \<noteq> None"
    using that by (simp add: ContextInitialize_pProcess)
  from * show "hDLL m = None" if "ctx_pProcess ctx \<noteq> None"
    using that by (simp add: ContextInitialize_pProcess split: if_splits)
qed

text \<open>Module C of the sample state belongs to library 7: the context of a list call for
  process 4 carries no process pointer; the built-in module A would get the pointer.\<close>

theorem C9_context_process_isolation_witness:
  "hDLL entry_C \<noteq> None
   \<and> ctx_pProcess (PluginManager_ContextInitialize sample_extern entry_C (Some \<lparr>dwPID = 4\<rparr>) []) = None
   \<and> hDLL entry_A = None
   \<and> ctx_pProcess (PluginManager_ContextInitialize sample_extern entry_A (Some \<lparr>dwPID = 4\<rparr>) [])
       = Some \<lparr>dwPID = 4\<rparr>
   \<and> new_events sample_state_ABC
        (snd (snd (PluginManager_List sample_extern (Some \<lparr>dwPID = 4\<rparr>) [0x63, 0] None []
           sample_state_ABC)))
       = [EvList entry_C (PluginManager_ContextInitialize sample_extern entry_C
            (Some \<lparr>dwPID = 4\<rparr>) [])]"
proof -
  note c9 = C9_context_process_isolation [of entry_C sample_extern "Some \<lparr>dwPID = 4\<rparr>" "[]"
      sample_state_ABC "[0x63, 0]" None "[]" "[]" 0 0 0]
  note c9' = C9_context_process_isolation [of entry_A sample_extern "Some \<lparr>dwPID = 4\<rparr>" "[]"
      sample_state_ABC "[0x63, 0]" None "[]" "[]" 0 0 0]
  have c: "hDLL entry_C \<noteq> None" by (simp add: entry_C_def)
  have a: "hDLL entry_A = None" by (simp add: entry_A_def)
  have l: "spec_lookup (Some \<lparr>dwPID = 4\<rparr>) [0x63, 0] (pVmmVfsModuleList sample_state_ABC)
      = Some entry_C"
    by (simp add: spec_lookup_def sample_state_ABC_eq scope_matches_def entry_C_def
        wcsicmp_def wcs_def towlower_def)
  have f: "pfnList entry_C = Some 300" by (simp add: entry_C_def)
  have e: "new_events sample_state_ABC
        (snd (snd (PluginManager_List sample_extern (Some \<lparr>dwPID = 4\<rparr>) [0x63, 0] None []
           sample_state_ABC)))
       = [EvList entry_C (PluginManager_ContextInitialize sample_extern entry_C
            (Some \<lparr>dwPID = 4\<rparr>) [])]"
    by (simp add: List_match [OF l f] path_or_empty_def)
  show ?thesis
    using c mp [OF conjunct1 [OF c9] c] a mp [OF conjunct1 [OF conjunct2 [OF c9']] a] e
    by (intro conjI)
qed

subsection \<open>Teardown\<close>

declare PluginManager_Close.simps [simp del]

lemma Close_step_eq:
  "Close_step pm FLink s =
     s\<lparr>pVmmVfsModuleList := FLink,
       trace := trace s
         @ (if pfnClose pm \<noteq> None then [EvClose pm] else [])
         @ (case hDLL pm of
              Some h \<Rightarrow> if list_ex (\<lambda>m. hDLL m = Some h) FLink then [] else [EvFreeLibrary h]
            | None \<Rightarrow> [])
         @ [EvLocalFree pm]\<rparr>"
  by (simp add: Close_step_def Let_def LocalFree_def FreeLibrary_def record_event_def
      PluginManager_ModuleExists_def ModuleExists_loop_handle list_ex_iff split: option.splits)

lemma Close_eq:
  "PluginManager_Close s =
     s\<lparr>pVmmVfsModuleList := [], trace := trace s @ spec_teardown_events (pVmmVfsModuleList s)\<rparr>"
proof (induction s rule: PluginManager_Close.induct)
  case (1 s)
  show ?case
  proof (cases "pVmmVfsModuleList s")
    case Nil
    then show ?thesis
      by (subst PluginManager_Close.simps) simp
  next
    case (Cons pm FLink)
    have "PluginManager_Close s = PluginManager_Close (Close_step pm FLink s)"
      by (subst PluginManager_Close.simps) (simp add: Cons)
    also have "\<dots> = (Close_step pm FLink s)\<lparr>pVmmVfsModuleList := [],
        trace := trace (Close_step pm FLink s)
          @ spec_teardown_events (pVmmVfsModuleList (Close_step pm FLink s))\<rparr>"
      using Cons by (rule "1.IH")
    also have "\<dots> = s\<lparr>pVmmVfsModuleList := [],
        trace := trace s @ spec_teardown_events (pVmmVfsModuleList s)\<rparr>"
      by (simp add: Close_step_eq Cons)
    finally show ?thesis .
  qed
qed

lemma teardown_close_events:
  "filter is_close_event (spec_teardown_events ms) =
     map EvClose (filter (\<lambda>m. pfnClose m \<noteq> None) ms)"
  by (induction ms) (auto simp: is_close_event_def split: option.splits)

lemma teardown_local_free_events:
  "filter is_local_free_event (spec_teardown_events ms) = map EvLocalFree ms"
  by (induction ms) (auto simp: is_local_free_event_def split: option.splits)

lemma teardown_free_library_count:
  "count_list (spec_teardown_events ms) (EvFreeLibrary h) =
     (if list_ex (\<lambda>m. hDLL m = Some h) ms then 1 else 0)"
  by (induction ms) (auto simp: list_ex_iff split: option.splits)

text \<open>
  C5. \<^verbatim>\<open>PluginManager_Close\<close> leaves the list head \<^verbatim>\<open>NULL\<close> and touches nothing else but the
  trace, to which it adds, entry by entry from the head: the call of the entry's close
  function if it has one, the release of its library if it has one and no entry behind it in
  the list has the same handle, and the free of the entry. So the close function of every
  entry that has one is called exactly once, every entry is freed exactly once, and every
  library handle that occurs in the list is released exactly once, however many entries
  share it, and no other handle is released.
\<close>

theorem C5_close_teardown:
  "PluginManager_Close s =
     s\<lparr>pVmmVfsModuleList := [], trace := trace s @ spec_teardown_events (pVmmVfsModuleList s)\<rparr>
   \<and> pVmmVfsModuleList (PluginManager_Close s) = []
   \<and> filter is_close_event (new_events s (PluginManager_Close s)) =
       map EvClose (filter (\<lambda>m. pfnClose m \<noteq> None) (pVmmVfsModuleList s))
   \<and> filter is_local_free_event (new_events s (PluginManager_Close s)) =
       map EvLocalFree (pVmmVfsModuleList s)
   \<and> (\<forall>h. count_list (new_events s (PluginManager_Close s)) (EvFreeLibrary h) =
         (if \<exists>m\<in>set (pVmmVfsModuleList s). hDLL m = Some h then 1 else 0))"
  by (simp add: Close_eq new_events_def teardown_close_events teardown_local_free_events
      teardown_free_library_count list_ex_iff del: count_list.simps)

text \<open>In the sample state B and C share library 7: teardown closes and frees C, closes B,
  releases the library once, frees B and frees A, which has no close function.\<close>

theorem C5_close_teardown_witness:
  "PluginManager_Close sample_state_ABC =
     sample_state_ABC\<lparr>pVmmVfsModuleList := [],
       trace := [EvClose entry_C, EvLocalFree entry_C, EvClose entry_B, EvFreeLibrary 7,
                 EvLocalFree entry_B, EvLocalFree entry_A]\<rparr>
   \<and> count_list (new_events sample_state_ABC (PluginManager_Close sample_state_ABC))
       (EvFreeLibrary 7) = 1"
proof -
  note c5 = C5_close_teardown [of sample_state_ABC]
  have ex: "\<exists>m\<in>set (pVmmVfsModuleList sample_state_ABC). hDLL m = Some 7"
    by (simp add: sample_state_ABC_eq entry_C_def)
  have "count_list (new_events sample_state_ABC (PluginManager_Close sample_state_ABC))
       (EvFreeLibrary 7) = 1"
    using spec [OF conjunct2 [OF conjunct2 [OF conjunct2 [OF conjunct2 [OF c5]]]], of 7] ex
    by (simp only: if_True)
  moreover have "PluginManager_Close sample_state_ABC =
     sample_state_ABC\<lparr>pVmmVfsModuleList := [],
       trace := [EvClose entry_C, EvLocalFree entry_C, EvClose entry_B, EvFreeLibrary 7,
                 EvLocalFree entry_B, EvLocalFree entry_A]\<rparr>"
    using conjunct1 [OF c5]
    by (simp add: sample_state_ABC_eq entry_A_def entry_B_def entry_C_def)
  ultimately show ?thesis by (intro conjI)
qed

subsection \<open>The scripting-bridge phase\<close>

lemma sample_state_fields:
  "pVmmVfsModuleList sample_state = []" "trace sample_state = []"
  by (simp_all add: sample_state_def)

lemma python_leak_trace:
  "PluginManager_Initialize_Python sample_extern_python sample_state =
     Inr (sample_state
       \<lparr> szPythonPath := ''C:'' @ backslash @ ''python'' @ backslash,
         trace := [EvLoadLibrary (''C:'' @ backslash @ ''python'' @ backslash @ ''python36.dll'') (Some 1),
                   EvLoadLibrary (''C:'' @ backslash @ ''python3.dll'') (Some 2),
                   EvLoadLibrary ''vmmpycplugin.dll'' (Some 3)] \<rparr>)"
  by (simp add: PluginManager_Initialize_Python_def python_bridge_def python_fail_def
      python_locate_exe_def python_locate_search_def exe_path_dll_def user_path_dll_def
      strcat_s_def strcpy_s_def
      sample_extern_python_def sample_extern_def sample_state_def
      szPYTHON_VERSIONS_SUPPORTED_def LoadLibraryExA_def LoadLibraryA_def FreeLibrary_def
      record_event_def backslash_def PluginManager_ModuleExists_def
      PluginManager_Initialize_RegInfoInit_def Let_def)

lemma python_no_entry_trace:
  "PluginManager_Initialize_Python sample_extern_python_no_entry sample_state =
     Inr (sample_state
       \<lparr> szPythonPath := ''C:'' @ backslash @ ''python'' @ backslash,
         trace := [EvLoadLibrary (''C:'' @ backslash @ ''python'' @ backslash @ ''python36.dll'') (Some 1),
                   EvLoadLibrary (''C:'' @ backslash @ ''python3.dll'') (Some 2),
                   EvLoadLibrary ''vmmpycplugin.dll'' (Some 3),
                   EvFreeLibrary 3, EvFreeLibrary 1, EvFreeLibrary 2] \<rparr>)"
  by (simp add: PluginManager_Initialize_Python_def python_bridge_def python_fail_def
      python_locate_exe_def python_locate_search_def exe_path_dll_def user_path_dll_def
      strcat_s_def strcpy_s_def
      sample_extern_python_no_entry_def
      sample_extern_python_def sample_extern_def sample_state_def
      szPYTHON_VERSIONS_SUPPORTED_def LoadLibraryExA_def LoadLibraryA_def FreeLibrary_def
      record_event_def backslash_def PluginManager_ModuleExists_def
      PluginManager_Initialize_RegInfoInit_def Let_def)

text \<open>
  C7 fails on the code. With the interpreter, its companion library and the bridge library
  loaded and the bridge's entry point present, a bridge that returns without registering
  itself makes \<^verbatim>\<open>PluginManager_Initialize_Python\<close> return through the plain \<^verbatim>\<open>return\<close> of
  line 298: no module of the bridge exists and none of the three handles has been
  released. When the entry point is missing instead, the phase leaves through the label
  \<^verbatim>\<open>fail\<close> and releases all three.
\<close>

theorem C7_python_bridge_not_registered_leaks:
  "PluginManager_Initialize_Python sample_extern_python sample_state =
     Inr (sample_state
       \<lparr> szPythonPath := ''C:'' @ backslash @ ''python'' @ backslash,
         trace := [EvLoadLibrary (''C:'' @ backslash @ ''python'' @ backslash @ ''python36.dll'') (Some 1),
                   EvLoadLibrary (''C:'' @ backslash @ ''python3.dll'') (Some 2),
                   EvLoadLibrary ''vmmpycplugin.dll'' (Some 3)] \<rparr>)
   \<and> new_events sample_state
       (final_state (PluginManager_Initialize_Python sample_extern_python sample_state)) =
     [EvLoadLibrary (''C:'' @ backslash @ ''python'' @ backslash @ ''python36.dll'') (Some 1),
      EvLoadLibrary (''C:'' @ backslash @ ''python3.dll'') (Some 2),
      EvLoadLibrary ''vmmpycplugin.dll'' (Some 3)]
   \<and> \<not> PluginManager_ModuleExists (Some 3) None
         (final_state (PluginManager_Initialize_Python sample_extern_python sample_state))
   \<and> \<not> spec_handles_released
         (new_events sample_state
            (final_state (PluginManager_Initialize_Python sample_extern_python sample_state)))
   \<and> spec_handles_released
         (new_events sample_state
            (final_state
               (PluginManager_Initialize_Python sample_extern_python_no_entry sample_state)))"
  by (simp add: python_leak_trace python_no_entry_trace new_events_def spec_handles_released_def
      PluginManager_ModuleExists_def sample_state_fields final_state_def)

subsection \<open>Bring-up\<close>

lemma Initialize_already:
  "pVmmVfsModuleList s \<noteq> [] \<Longrightarrow> PluginManager_Initialize E s = Inr (False, s)"
  by (simp add: PluginManager_Initialize_def)

text \<open>
  C6. With a non-empty list \<^verbatim>\<open>PluginManager_Initialize\<close> returns \<^verbatim>\<open>FALSE\<close> ("already
  initialized") and the state, trace included, is what it was. In particular a second
  bring-up after one that registered something returns \<^verbatim>\<open>FALSE\<close> and leaves the state of
  the first.
\<close>

theorem C6_initialize_twice:
  "(pVmmVfsModuleList s \<noteq> [] \<longrightarrow> PluginManager_Initialize E s = Inr (False, s))
   \<and> (\<forall>result s1. PluginManager_Initialize E s = Inr (result, s1)
          \<and> pVmmVfsModuleList s1 \<noteq> [] \<longrightarrow>
        PluginManager_Initialize E' s1 = Inr (False, s1))"
  by (simp add: Initialize_already)

lemma sample_builtin_bringup:
  "PluginManager_Initialize sample_extern_builtin sample_state =
     Inr (True, sample_state
        \<lparr> pVmmVfsModuleList := [entry_A],
          trace := [EvLocalAlloc True,
                    EvLoadLibrary (''C:'' @ backslash @ ''python'' @ backslash @ ''python36.dll'') None,
                    EvLoadLibrary (''C:'' @ backslash @ ''python'' @ backslash @ ''python37.dll'') None,
                    EvLoadLibrary (''C:'' @ backslash @ ''python'' @ backslash @ ''python38.dll'') None,
                    EvLoadLibrary ''python36.dll'' None,
                    EvLoadLibrary ''python37.dll'' None,
                    EvLoadLibrary ''python38.dll'' None] \<rparr>)"
  by (simp add: PluginManager_Initialize_def builtin_initializers_def
      PluginManager_Initialize_Python_def python_bridge_def python_fail_def
      python_locate_exe_def python_locate_search_def exe_path_dll_def user_path_dll_def
      strcat_s_def strcpy_s_def strnlen_def
      sample_extern_builtin_def sample_extern_def sample_state_def
      szPYTHON_VERSIONS_SUPPORTED_def LoadLibraryExA_def LoadLibraryA_def FreeLibrary_def
      record_event_def backslash_def PluginManager_ModuleExists_def
      PluginManager_Initialize_RegInfoInit_def Let_def PluginManager_Register_def
      first_unit_nonzero_def wcslen_def wcs_def LocalAlloc_def new_entry_def entry_A_def)

text \<open>Bring-up with the registering built-in leaves module A in the list; bring-up called
  again returns \<^verbatim>\<open>FALSE\<close> and the state is the one the first call left.\<close>

theorem C6_initialize_twice_witness:
  "PluginManager_Initialize sample_extern_builtin sample_state =
     Inr (True, sample_state
        \<lparr> pVmmVfsModuleList := [entry_A],
          trace := [EvLocalAlloc True,
                    EvLoadLibrary (''C:'' @ backslash @ ''python'' @ backslash @ ''python36.dll'') None,
                    EvLoadLibrary (''C:'' @ backslash @ ''python'' @ backslash @ ''python37.dll'') None,
                    EvLoadLibrary (''C:'' @ backslash @ ''python'' @ backslash @ ''python38.dll'') None,
                    EvLoadLibrary ''python36.dll'' None,
                    EvLoadLibrary ''python37.dll'' None,
                    EvLoadLibrary ''python38.dll'' None] \<rparr>)
   \<and> PluginManager_Initialize sample_extern_builtin
        (sample_state
        \<lparr> pVmmVfsModuleList := [entry_A],
          trace := [EvLocalAlloc True,
                    EvLoadLibrary (''C:'' @ backslash @ ''python'' @ backslash @ ''python36.dll'') None,
                    EvLoadLibrary (''C:'' @ backslash @ ''python'' @ backslash @ ''python37.dll'') None,
                    EvLoadLibrary (''C:'' @ backslash @ ''python'' @ backslash @ ''python38.dll'') None,
                    EvLoadLibrary ''python36.dll'' None,
                    EvLoadLibrary ''python37.dll'' None,
                    EvLoadLibrary ''python38.dll'' None] \<rparr>)
       = Inr (False, sample_state
        \<lparr> pVmmVfsModuleList := [entry_A],
          trace := [EvLocalAlloc True,
                    EvLoadLibrary (''C:'' @ backslash @ ''python'' @ backslash @ ''python36.dll'') None,
                    EvLoadLibrary (''C:'' @ backslash @ ''python'' @ backslash @ ''python37.dll'') None,
                    EvLoadLibrary (''C:'' @ backslash @ ''python'' @ backslash @ ''python38.dll'') None,
                    EvLoadLibrary ''python36.dll'' None,
                    EvLoadLibrary ''python37.dll'' None,
                    EvLoadLibrary ''python38.dll'' None] \<rparr>)"
proof -
  let ?s1 = "sample_state
        \<lparr> pVmmVfsModuleList := [entry_A],
          trace := [EvLocalAlloc True,
                    EvLoadLibrary (''C:'' @ backslash @ ''python'' @ backslash @ ''python36.dll'') None,
                    EvLoadLibrary (''C:'' @ backslash @ ''python'' @ backslash @ ''python37.dll'') None,
                    EvLoadLibrary (''C:'' @ backslash @ ''python'' @ backslash @ ''python38.dll'') None,
                    EvLoadLibrary ''python36.dll'' None,
                    EvLoadLibrary ''python37.dll'' None,
                    EvLoadLibrary ''python38.dll'' None] \<rparr>"
  have first: "PluginManager_Initialize sample_extern_builtin sample_state = Inr (True, ?s1)
      \<and> pVmmVfsModuleList ?s1 \<noteq> []"
    by (simp add: sample_builtin_bringup)
  show ?thesis
    using conjunct1 [OF first]
      mp [OF spec [OF spec [OF conjunct2 [OF C6_initialize_twice
          [of sample_state sample_extern_builtin sample_extern_builtin]]]] first]
    by (intro conjI)
qed

subsection \<open>The registry invariant\<close>

lemma wcsicmp_wcs_left [simp]: "wcsicmp (wcs a) b = wcsicmp a b"
  by (simp add: wcsicmp_def)

lemma wcsicmp_refl [simp]: "wcsicmp a a = 0"
  by (simp add: wcsicmp_zero_iff)

lemma names_distinct_pairwise:
  "names_distinct ms \<longleftrightarrow>
     (\<forall>i<length ms. \<forall>j<length ms. i \<noteq> j \<longrightarrow>
        wcsicmp (wszModuleName (ms ! i)) (wszModuleName (ms ! j)) \<noteq> 0)"
proof (induction ms)
  case Nil
  then show ?case by simp
next
  case (Cons x xs)
  let ?N = "\<lambda>a b. wcsicmp (wszModuleName a) (wszModuleName b) \<noteq> 0"
  have head: "(\<forall>m'\<in>set xs. ?N x m') \<longleftrightarrow> (\<forall>j<length xs. ?N x (xs ! j))"
    by (metis in_set_conv_nth)
  have sym: "?N a b \<longleftrightarrow> ?N b a" for a b
    using wcsicmp_sym by blast
  have "(\<forall>j<length xs. ?N x (xs ! j))
        \<and> (\<forall>i<length xs. \<forall>j<length xs. i \<noteq> j \<longrightarrow> ?N (xs ! i) (xs ! j))
      \<longleftrightarrow> (\<forall>i<length (x # xs). \<forall>j<length (x # xs). i \<noteq> j \<longrightarrow> ?N ((x # xs) ! i) ((x # xs) ! j))"
    (is "?A \<and> ?B \<longleftrightarrow> ?C")
  proof
    assume ab: "?A \<and> ?B"
    show ?C
    proof (intro allI impI)
      fix i j
      assume "i < length (x # xs)" "j < length (x # xs)" "i \<noteq> j"
      with ab show "?N ((x # xs) ! i) ((x # xs) ! j)"
        by (cases i; cases j) (auto simp: sym [of _ x])
    qed
  next
    assume c: ?C
    have ?A
    proof (intro allI impI)
      fix j assume "j < length xs"
      with c have "?N ((x # xs) ! 0) ((x # xs) ! Suc j)" by force
      then show "?N x (xs ! j)" by simp
    qed
    moreover have ?B
    proof (intro allI impI)
      fix i j assume "i < length xs" "j < length xs" "i \<noteq> j"
      with c have "?N ((x # xs) ! Suc i) ((x # xs) ! Suc j)" by force
      then show "?N (xs ! i) (xs ! j)" by simp
    qed
    ultimately show "?A \<and> ?B" ..
  qed
  then show ?case
    unfolding names_distinct.simps Cons.IH head .
qed

lemma Register_inv:
  assumes "registry_inv (pVmmVfsModuleList s)"
  shows "registry_inv (pVmmVfsModuleList (snd (PluginManager_Register E pRegInfo s)))"
proof (cases "fst (PluginManager_Register E pRegInfo s)")
  case False
  then show ?thesis
    using assms by (cases pRegInfo) (simp_all add: Register_list)
next
  case True
  then obtain ri where ri: "pRegInfo = Some ri"
    by (cases pRegInfo) (simp_all add: Register_accepts_iff)
  from True have ok: "reg_fn_pfnList ri \<noteq> None"
    "\<forall>m\<in>set (pVmmVfsModuleList s). wcsicmp (reg_info_wszModuleName ri) (wszModuleName m) \<noteq> 0"
    "reg_info_fRootModule ri \<or> reg_info_fProcessModule ri"
    unfolding Register_accepts_iff ri by simp_all
  have "pVmmVfsModuleList (snd (PluginManager_Register E pRegInfo s))
      = new_entry ri # pVmmVfsModuleList s"
    using True by (simp add: Register_list ri)
  with assms ok show ?thesis
    by (simp add: registry_inv_def new_entry_def)
qed

lemma run_init_inv:
  "registry_inv (pVmmVfsModuleList s) \<Longrightarrow> registry_inv (pVmmVfsModuleList (run_init E p s))"
proof (induction p arbitrary: s)
  case Return
  then show ?case by simp
next
  case (CallRegister pRegInfo k)
  obtain b s' where r: "PluginManager_Register E pRegInfo s = (b, s')"
    by (cases "PluginManager_Register E pRegInfo s")
  have "registry_inv (pVmmVfsModuleList s')"
    using Register_inv [OF CallRegister.prems, of E pRegInfo] r by simp
  then have "registry_inv (pVmmVfsModuleList (run_init E (k b) s'))"
    by (rule CallRegister.IH [OF rangeI])
  then show ?case by (simp add: r)
qed

lemma os_calls_list [simp]:
  "pVmmVfsModuleList (record_event e s) = pVmmVfsModuleList s"
  "pVmmVfsModuleList (snd (LoadLibraryExA E path flags s)) = pVmmVfsModuleList s"
  "pVmmVfsModuleList (snd (LoadLibraryA E path s)) = pVmmVfsModuleList s"
  "pVmmVfsModuleList (FreeLibrary h s) = pVmmVfsModuleList s"
  "pVmmVfsModuleList (LocalFree pm s) = pVmmVfsModuleList s"
  by (simp_all add: record_event_def LoadLibraryExA_def LoadLibraryA_def FreeLibrary_def
      LocalFree_def Let_def)

lemma trace_grows_refl [simp]: "trace_grows s s"
  by (simp add: trace_grows_def)

lemma trace_grows_trans: "trace_grows a b \<Longrightarrow> trace_grows b c \<Longrightarrow> trace_grows a c"
  by (auto simp: trace_grows_def)

lemma trace_grows_path [simp]: "trace_grows s (s'\<lparr>szPythonPath := p\<rparr>) = trace_grows s s'"
  by (simp add: trace_grows_def)

lemma trace_grows_os [simp]:
  "trace_grows s (record_event e s)"
  "trace_grows s (snd (LoadLibraryExA E path flags s))"
  "trace_grows s (snd (LoadLibraryA E path s))"
  "trace_grows s (FreeLibrary h s)"
  "trace_grows s (snd (LocalAlloc s))"
  by (simp_all add: trace_grows_def record_event_def LoadLibraryExA_def LoadLibraryA_def
      FreeLibrary_def LocalAlloc_def Let_def split: list.splits)

lemma os_calls_path [simp]:
  "szPythonPath (record_event e s) = szPythonPath s"
  "szPythonPath (snd (LoadLibraryExA E path flags s)) = szPythonPath s"
  "szPythonPath (snd (LoadLibraryA E path s)) = szPythonPath s"
  "szPythonPath (FreeLibrary h s) = szPythonPath s"
  "szPythonPath (snd (LocalAlloc s)) = szPythonPath s"
  by (simp_all add: record_event_def LoadLibraryExA_def LoadLibraryA_def
      FreeLibrary_def LocalAlloc_def Let_def split: list.splits)

lemma Register_frame:
  "szPythonPath (snd (PluginManager_Register E pRegInfo s)) = szPythonPath s"
  "trace_grows s (snd (PluginManager_Register E pRegInfo s))"
proof -
  obtain ok s1 where a: "LocalAlloc s = (ok, s1)" by (cases "LocalAlloc s")
  have "szPythonPath s1 = szPythonPath s" "trace_grows s s1"
    using arg_cong [OF a, of snd, symmetric] by simp_all
  then show "szPythonPath (snd (PluginManager_Register E pRegInfo s)) = szPythonPath s"
    and "trace_grows s (snd (PluginManager_Register E pRegInfo s))"
    by (simp_all add: PluginManager_Register_def a trace_grows_def split: option.splits)
qed

lemma run_init_frame:
  "szPythonPath (run_init E p s) = szPythonPath s \<and> trace_grows s (run_init E p s)"
proof (induction p arbitrary: s)
  case Return
  then show ?case by simp
next
  case (CallRegister pRegInfo k)
  obtain b s' where r: "PluginManager_Register E pRegInfo s = (b, s')"
    by (cases "PluginManager_Register E pRegInfo s")
  have "szPythonPath s' = szPythonPath s" "trace_grows s s'"
    using Register_frame [where E = E and pRegInfo = pRegInfo and s = s] r by simp_all
  moreover have "szPythonPath (run_init E (k b) s') = szPythonPath s'
      \<and> trace_grows s' (run_init E (k b) s')"
    by (rule CallRegister.IH [OF rangeI])
  ultimately show ?case
    by (auto simp: r intro: trace_grows_trans)
qed

lemma load_versions_ex_frame:
  "case load_versions_ex E build vs s of
     Inl (Invalid_Parameter s') \<Rightarrow>
       pVmmVfsModuleList s' = pVmmVfsModuleList s \<and> trace_grows s s'
   | Inr (h, s') \<Rightarrow>
       pVmmVfsModuleList s' = pVmmVfsModuleList s \<and> szPythonPath s' = szPythonPath s
       \<and> trace_grows s s'"
proof (induction vs arbitrary: s)
  case Nil
  then show ?case by simp
next
  case (Cons v vs)
  show ?case
  proof (cases "build v")
    case None
    then show ?thesis by simp
  next
    case (Some path)
    obtain h s1 where l: "LoadLibraryExA E path LOAD_WITH_ALTERED_SEARCH_PATH s = (h, s1)"
      by (cases "LoadLibraryExA E path LOAD_WITH_ALTERED_SEARCH_PATH s")
    have f: "pVmmVfsModuleList s1 = pVmmVfsModuleList s" "szPythonPath s1 = szPythonPath s"
      "trace_grows s s1"
      using arg_cong [OF l, of snd, symmetric] by simp_all
    show ?thesis
    proof (cases h)
      case None
      with Some l f Cons.IH [of s1] show ?thesis
        by (auto split: sum.splits fatal.splits intro: trace_grows_trans)
    next
      case (Some h')
      with \<open>build v = Some path\<close> l f show ?thesis by simp
    qed
  qed
qed

lemma load_versions_frame:
  "pVmmVfsModuleList (snd (load_versions E vs s)) = pVmmVfsModuleList s
   \<and> szPythonPath (snd (load_versions E vs s)) = szPythonPath s
   \<and> trace_grows s (snd (load_versions E vs s))"
proof (induction vs arbitrary: s)
  case Nil
  then show ?case by simp
next
  case (Cons v vs)
  obtain h s1 where l: "LoadLibraryA E v s = (h, s1)"
    by (cases "LoadLibraryA E v s")
  have f: "pVmmVfsModuleList s1 = pVmmVfsModuleList s" "szPythonPath s1 = szPythonPath s"
    "trace_grows s s1"
    using arg_cong [OF l, of snd, symmetric] by simp_all
  with l Cons.IH [of s1] show ?case
    by (cases h) (auto intro: trace_grows_trans)
qed

lemma python_fail_frame [simp]:
  "pVmmVfsModuleList (python_fail a b c s) = pVmmVfsModuleList s"
  "trace_grows s (python_fail a b c s)"
  by (auto simp: python_fail_def Let_def FreeLibrary_def record_event_def trace_grows_def
      split: option.splits)

lemma python_locate_exe_frame:
  "case python_locate_exe E h s of
     Inl (Invalid_Parameter s') \<Rightarrow>
       pVmmVfsModuleList s' = pVmmVfsModuleList s \<and> trace_grows s s'
   | Inr (h', s') \<Rightarrow> pVmmVfsModuleList s' = pVmmVfsModuleList s \<and> trace_grows s s'"
  using load_versions_ex_frame
    [where E = E and build = "exe_path_dll E" and vs = szPYTHON_VERSIONS_SUPPORTED and s = s]
  by (auto simp: python_locate_exe_def split: sum.splits fatal.splits option.splits)

lemma python_locate_search_frame:
  "pVmmVfsModuleList (snd (python_locate_search E h s)) = pVmmVfsModuleList s
   \<and> trace_grows s (snd (python_locate_search E h s))"
  using load_versions_frame [where E = E and vs = szPYTHON_VERSIONS_SUPPORTED and s = s]
  by (auto simp: python_locate_search_def split: prod.splits option.splits)


lemma final_state_simps [simp]:
  "final_state (Inl (Invalid_Parameter s)) = s"
  "final_state (Inr s) = s"
  by (simp_all add: final_state_def)

lemma python_bridge_inv:
  assumes "registry_inv (pVmmVfsModuleList s)"
  shows "registry_inv (pVmmVfsModuleList (final_state (python_bridge E h s)))"
proof (cases "strcat_s (MAX_PATH E) (Util_GetPathDll E h) ''python3.dll''")
  case None
  then show ?thesis using assms by (simp add: python_bridge_def)
next
  case (Some path)
  obtain h3 s1 where l1: "LoadLibraryExA E path LOAD_WITH_ALTERED_SEARCH_PATH s = (h3, s1)"
    by (cases "LoadLibraryExA E path LOAD_WITH_ALTERED_SEARCH_PATH s")
  obtain hp s2 where l2: "LoadLibraryA E ''vmmpycplugin.dll'' s1 = (hp, s2)"
    by (cases "LoadLibraryA E ''vmmpycplugin.dll'' s1")
  have "pVmmVfsModuleList s1 = pVmmVfsModuleList s"
    using arg_cong [OF l1, of snd, symmetric] by simp
  moreover have "pVmmVfsModuleList s2 = pVmmVfsModuleList s1"
    using arg_cong [OF l2, of snd, symmetric] by simp
  ultimately have inv2: "registry_inv (pVmmVfsModuleList s2)"
    using assms by simp
  show ?thesis
    unfolding python_bridge_def Some option.case l1 l2 prod.case
    using inv2 by (auto simp: Let_def run_init_inv split: option.splits)
qed

lemma Initialize_Python_inv:
  assumes "registry_inv (pVmmVfsModuleList s)"
  shows "registry_inv (pVmmVfsModuleList (final_state (PluginManager_Initialize_Python E s)))"
proof -
  let ?r1 = "if szPythonPath s \<noteq> []
            then load_versions_ex E (user_path_dll E (szPythonPath s))
                   szPYTHON_VERSIONS_SUPPORTED s
            else Inr (None, s)"
  have f1: "case ?r1 of
      Inl (Invalid_Parameter s') \<Rightarrow> pVmmVfsModuleList s' = pVmmVfsModuleList s
    | Inr (h, s') \<Rightarrow> pVmmVfsModuleList s' = pVmmVfsModuleList s"
    using load_versions_ex_frame [where E = E and build = "user_path_dll E (szPythonPath s)"
        and vs = szPYTHON_VERSIONS_SUPPORTED and s = s]
    by (auto split: sum.splits fatal.splits)
  show ?thesis
  proof (cases ?r1)
    case (Inl f)
    obtain s' where f: "f = Invalid_Parameter s'" by (cases f)
    have "pVmmVfsModuleList s' = pVmmVfsModuleList s"
      using f1 unfolding Inl f by simp
    then show ?thesis
      unfolding PluginManager_Initialize_Python_def Inl f using assms by simp
  next
    case (Inr p)
    obtain h1 s1 where p: "p = (h1, s1)" by (cases p)
    have l1: "pVmmVfsModuleList s1 = pVmmVfsModuleList s"
      using f1 unfolding Inr p by simp
    show ?thesis
    proof (cases "szPythonPath s \<noteq> [] \<and> h1 = None")
      case True
      then show ?thesis
        unfolding PluginManager_Initialize_Python_def Inr p using assms l1 by simp
    next
      case False
      have f2: "case python_locate_exe E h1 s1 of
          Inl (Invalid_Parameter s') \<Rightarrow> pVmmVfsModuleList s' = pVmmVfsModuleList s1
        | Inr (h', s') \<Rightarrow> pVmmVfsModuleList s' = pVmmVfsModuleList s1"
        using python_locate_exe_frame [where E = E and h = h1 and s = s1]
        by (auto split: sum.splits fatal.splits)
      show ?thesis
      proof (cases "python_locate_exe E h1 s1")
        case (Inl f)
        obtain s' where f: "f = Invalid_Parameter s'" by (cases f)
        have "pVmmVfsModuleList s' = pVmmVfsModuleList s1"
          using f2 unfolding Inl f by simp
        then show ?thesis
          unfolding PluginManager_Initialize_Python_def Inr p
          using False assms l1 by (simp add: Inl f)
      next
        case exe: (Inr q)
        obtain h2 s2 where q: "q = (h2, s2)" by (cases q)
        have l2: "pVmmVfsModuleList s2 = pVmmVfsModuleList s1"
          using f2 unfolding exe q by simp
        obtain h3 s3 where srch: "python_locate_search E h2 s2 = (h3, s3)"
          by (cases "python_locate_search E h2 s2")
        have l3: "pVmmVfsModuleList s3 = pVmmVfsModuleList s2"
          using python_locate_search_frame [where E = E and h = h2 and s = s2] srch by simp
        have inv3: "registry_inv (pVmmVfsModuleList s3)"
          using assms l1 l2 l3 by simp
        show ?thesis
          unfolding PluginManager_Initialize_Python_def Inr p
          using False inv3 assms l1 by (simp add: exe q srch python_bridge_inv)
      qed
    qed
  qed
qed

lemma Initialize_dlls_inv:
  "registry_inv (pVmmVfsModuleList s) \<Longrightarrow>
     registry_inv (pVmmVfsModuleList (final_state (Initialize_dlls E cch szPath found s)))"
proof (induction found arbitrary: s szPath)
  case Nil
  then show ?case by simp
next
  case (Cons cFileName others)
  show ?case
  proof (cases "Option.bind (strcat_s (MAX_PATH E) (take cch szPath) (''plugins'' @ backslash))
             (\<lambda>b. strcat_s (MAX_PATH E) b cFileName)")
    case None
    then show ?thesis
      unfolding Initialize_dlls.simps using Cons.prems by simp
  next
    case (Some path)
    obtain h s1 where l: "LoadLibraryExA E path 0 s = (h, s1)"
      by (cases "LoadLibraryExA E path 0 s")
    have "pVmmVfsModuleList s1 = pVmmVfsModuleList s"
      using arg_cong [OF l, of snd, symmetric] by simp
    then have inv1: "registry_inv (pVmmVfsModuleList s1)"
      using Cons.prems by simp
    show ?thesis
      unfolding Initialize_dlls.simps Some option.case l prod.case
      using inv1 by (auto simp: Let_def run_init_inv intro!: Cons.IH split: option.splits)
  qed
qed

lemma Initialize_builtin_inv:
  "registry_inv (pVmmVfsModuleList s) \<Longrightarrow>
     registry_inv (pVmmVfsModuleList (Initialize_builtin E inits s))"
  by (induction inits arbitrary: s) (simp_all add: run_init_inv)

lemma Initialize_inv:
  assumes "registry_inv (pVmmVfsModuleList s)"
  shows "registry_inv (pVmmVfsModuleList (final_state (apply_operation E s OpInitialize)))"
proof (cases "pVmmVfsModuleList s \<noteq> []")
  case True
  then show ?thesis using assms by (simp add: Initialize_already)
next
  case False
  let ?s1 = "Initialize_builtin E (builtin_initializers E) s"
  have inv1: "registry_inv (pVmmVfsModuleList ?s1)"
    using assms by (rule Initialize_builtin_inv)
  show ?thesis
  proof (cases "strcat_s (MAX_PATH E) (Util_GetPathDll E None)
      (''plugins'' @ backslash @ ''m_*.dll'')")
    case None
    then show ?thesis
      using False inv1 by (simp add: PluginManager_Initialize_def Let_def)
  next
    case (Some szPath)
    let ?r2 = "Initialize_dlls E (strnlen (Util_GetPathDll E None) (MAX_PATH E - 1)) szPath
                 (os_FindFiles E szPath) ?s1"
    have inv2: "registry_inv (pVmmVfsModuleList (final_state ?r2))"
      using inv1 by (rule Initialize_dlls_inv)
    have init: "PluginManager_Initialize E s =
        (case ?r2 of Inl f \<Rightarrow> Inl f
         | Inr s2 \<Rightarrow> (case PluginManager_Initialize_Python E s2 of
                        Inl f \<Rightarrow> Inl f | Inr s3 \<Rightarrow> Inr (True, s3)))"
      using False unfolding PluginManager_Initialize_def Let_def Some by simp
    show ?thesis
    proof (cases ?r2)
      case (Inl f)
      have "apply_operation E s OpInitialize = Inl f"
        unfolding apply_operation.simps init Inl by simp
      then show ?thesis
        using inv2 unfolding Inl by simp
    next
      case (Inr s2)
      then have "registry_inv (pVmmVfsModuleList s2)"
        using inv2 by simp
      then have inv3: "registry_inv (pVmmVfsModuleList
          (final_state (PluginManager_Initialize_Python E s2)))"
        by (rule Initialize_Python_inv)
      have "apply_operation E s OpInitialize = PluginManager_Initialize_Python E s2"
        unfolding apply_operation.simps init Inr
        by (cases "PluginManager_Initialize_Python E s2") simp_all
      then show ?thesis
        using inv3 by simp
    qed
  qed
qed

lemma dispatch_list [simp]:
  "pVmmVfsModuleList (snd (snd (PluginManager_List E p w wp fl s))) = pVmmVfsModuleList s"
  "pVmmVfsModuleList (snd (snd (snd (PluginManager_Read E p w wp pb cb pcb off s))))
     = pVmmVfsModuleList s"
  "pVmmVfsModuleList (snd (snd (PluginManager_Write E p w wp pb cb pcb off s)))
     = pVmmVfsModuleList s"
  "pVmmVfsModuleList (snd (PluginManager_Notify fEvent pvEvent cbEvent s)) = pVmmVfsModuleList s"
  by (simp_all add: PluginManager_List_def List_loop_find PluginManager_Read_def Read_loop_find
      PluginManager_Write_def Write_loop_find PluginManager_Notify_def Notify_loop_trace Let_def
      split: option.splits)

lemma registry_inv_Nil [simp]: "registry_inv []"
  by (simp add: registry_inv_def)

lemma apply_operation_inv:
  assumes "registry_inv (pVmmVfsModuleList s)"
  shows "registry_inv (pVmmVfsModuleList (final_state (apply_operation E s op)))"
proof (cases op)
  case OpInitialize
  then show ?thesis using Initialize_inv [OF assms] by simp
qed (use assms in \<open>simp_all add: Register_inv Close_eq\<close>)

lemma run_operations_inv:
  "registry_inv (pVmmVfsModuleList s) \<Longrightarrow>
     registry_inv (pVmmVfsModuleList (final_state (run_operations E s ops)))"
proof (induction ops arbitrary: s)
  case Nil
  then show ?case by simp
next
  case (Cons op ops)
  have step: "registry_inv (pVmmVfsModuleList (final_state (apply_operation E s op)))"
    using Cons.prems by (rule apply_operation_inv)
  show ?case
  proof (cases "apply_operation E s op")
    case (Inl f)
    then show ?thesis using step by simp
  next
    case (Inr s')
    then show ?thesis using step Cons.IH [of s'] by simp
  qed
qed

text \<open>
  C8. The invariant - the names of the entries are pairwise different under the
  case-insensitive comparison, and every entry has a scope flag and a list function - holds
  for the empty list, is kept by every operation of the file (registration, the three
  dispatch calls, notification, bring-up, teardown), also when bring-up ends the process,
  and so holds in every state reached from an empty list by any sequence of operations.
\<close>

theorem C8_registry_invariant:
  "(registry_inv ms \<longleftrightarrow>
      (\<forall>i<length ms. \<forall>j<length ms. i \<noteq> j \<longrightarrow>
         wcsicmp (wszModuleName (ms ! i)) (wszModuleName (ms ! j)) \<noteq> 0)
      \<and> (\<forall>m\<in>set ms. (fRootModule m \<or> fProcessModule m) \<and> pfnList m \<noteq> None))
   \<and> (registry_inv (pVmmVfsModuleList s) \<longrightarrow>
        registry_inv (pVmmVfsModuleList (final_state (apply_operation E s op))))
   \<and> (pVmmVfsModuleList s = [] \<longrightarrow>
        registry_inv (pVmmVfsModuleList (final_state (run_operations E s ops))))"
proof (intro conjI impI)
  show "registry_inv ms \<longleftrightarrow>
      (\<forall>i<length ms. \<forall>j<length ms. i \<noteq> j \<longrightarrow>
         wcsicmp (wszModuleName (ms ! i)) (wszModuleName (ms ! j)) \<noteq> 0)
      \<and> (\<forall>m\<in>set ms. (fRootModule m \<or> fProcessModule m) \<and> pfnList m \<noteq> None)"
    unfolding registry_inv_def names_distinct_pairwise ..
next
  assume "registry_inv (pVmmVfsModuleList s)"
  then show "registry_inv (pVmmVfsModuleList (final_state (apply_operation E s op)))"
    by (rule apply_operation_inv)
next
  assume "pVmmVfsModuleList s = []"
  then have "registry_inv (pVmmVfsModuleList s)" by simp
  then show "registry_inv (pVmmVfsModuleList (final_state (run_operations E s ops)))"
    by (rule run_operations_inv)
qed


lemma sample_register_B:
  assumes "pVmmVfsModuleList s = [entry_A]" "alloc_outcomes s = []"
  shows "pVmmVfsModuleList (snd (PluginManager_Register sample_extern_builtin
           (Some sample_reginfo_B) s)) = [entry_B, entry_A]"
proof -
  have "fst (PluginManager_Register sample_extern_builtin (Some sample_reginfo_B) s)"
    unfolding Register_accepts_iff
    by (simp add: assms sample_reginfo_B_def sample_extern_builtin_def sample_extern_def
        PluginManager_Initialize_RegInfoInit_def first_unit_nonzero_def wcslen_def wcs_def
        wcsicmp_def towlower_def entry_A_def LocalAlloc_def)
  then show ?thesis
    by (simp add: Register_list assms new_entry_samples)
qed

lemma sample_register_b_again:
  assumes "pVmmVfsModuleList s = [entry_B, entry_A]"
  shows "pVmmVfsModuleList (snd (PluginManager_Register sample_extern_builtin
           (Some (sample_reginfo_B\<lparr>reg_info_wszModuleName := [0x62, 0]\<rparr>)) s))
         = [entry_B, entry_A]"
proof -
  have "\<not> fst (PluginManager_Register sample_extern_builtin
           (Some (sample_reginfo_B\<lparr>reg_info_wszModuleName := [0x62, 0]\<rparr>)) s)"
    unfolding Register_accepts_iff
    by (simp add: assms wcsicmp_def towlower_def entry_B_def wcs_def)
  then show ?thesis
    by (simp add: Register_list assms)
qed

lemma sample_run_list:
  "pVmmVfsModuleList
     (final_state (run_operations sample_extern_builtin sample_state
        [OpInitialize, OpRegister (Some sample_reginfo_B),
         OpRegister (Some (sample_reginfo_B\<lparr>reg_info_wszModuleName := [0x62, 0]\<rparr>)),
         OpNotify 1 None 0])) = [entry_B, entry_A]"
proof -
  obtain s1 where s1: "PluginManager_Initialize sample_extern_builtin sample_state = Inr (True, s1)"
    and "pVmmVfsModuleList s1 = [entry_A]" "alloc_outcomes s1 = []"
    by (simp add: sample_builtin_bringup) (simp add: sample_state_def)
  then show ?thesis
    by (simp add: sample_register_b_again sample_register_B)
qed

text \<open>Bring-up with the registering built-in, a registration of B, a second registration
  under the name \<^verbatim>\<open>L"b"\<close> and a notification, from the state before bring-up: the list holds
  B and A and satisfies the invariant.\<close>

theorem C8_registry_invariant_witness:
  "pVmmVfsModuleList sample_state = []
   \<and> pVmmVfsModuleList
       (final_state (run_operations sample_extern_builtin sample_state
          [OpInitialize, OpRegister (Some sample_reginfo_B),
           OpRegister (Some (sample_reginfo_B\<lparr>reg_info_wszModuleName := [0x62, 0]\<rparr>)),
           OpNotify 1 None 0])) = [entry_B, entry_A]
   \<and> registry_inv (pVmmVfsModuleList
       (final_state (run_operations sample_extern_builtin sample_state
          [OpInitialize, OpRegister (Some sample_reginfo_B),
           OpRegister (Some (sample_reginfo_B\<lparr>reg_info_wszModuleName := [0x62, 0]\<rparr>)),
           OpNotify 1 None 0])))"
proof -
  have e: "pVmmVfsModuleList sample_state = []"
    by (simp add: sample_state_def)
  show ?thesis
    using e sample_run_list
      mp [OF conjunct2 [OF conjunct2 [OF C8_registry_invariant
            [of "[]" sample_state sample_extern_builtin OpClose
               "[OpInitialize, OpRegister (Some sample_reginfo_B),
                 OpRegister (Some (sample_reginfo_B\<lparr>reg_info_wszModuleName := [0x62, 0]\<rparr>)),
                 OpNotify 1 None 0]"]]] e]
    by (intro conjI)
qed


subsection \<open>Bring-up returns\<close>

lemma version_name_length:
  "v \<in> set szPYTHON_VERSIONS_SUPPORTED \<Longrightarrow> length v = 12"
  by (auto simp: szPYTHON_VERSIONS_SUPPORTED_def)

lemma user_path_dll_fits:
  "length cfg + 13 < MAX_PATH E \<Longrightarrow> length v = 12 \<Longrightarrow> user_path_dll E cfg v \<noteq> None"
  by (simp add: user_path_dll_def strcpy_s_def strcat_s_def backslash_def)

lemma exe_path_dll_fits:
  "length (Util_GetPathDll E None) + 19 < MAX_PATH E \<Longrightarrow> length v = 12
     \<Longrightarrow> exe_path_dll E v \<noteq> None"
  by (simp add: exe_path_dll_def strcat_s_def backslash_def)

lemma load_versions_ex_returns:
  "\<forall>v\<in>set vs. build v \<noteq> None \<Longrightarrow> \<exists>h s'. load_versions_ex E build vs s = Inr (h, s')"
proof (induction vs arbitrary: s)
  case Nil
  then show ?case by simp
next
  case (Cons v vs)
  then obtain path where b: "build v = Some path" by auto
  obtain h s1 where l: "LoadLibraryExA E path LOAD_WITH_ALTERED_SEARCH_PATH s = (h, s1)"
    by (cases "LoadLibraryExA E path LOAD_WITH_ALTERED_SEARCH_PATH s")
  from Cons show ?case
    by (cases h) (simp_all add: b l)
qed

lemma python_bridge_returns:
  assumes "length (Util_GetPathDll E h) + 11 < MAX_PATH E"
  shows "\<exists>s'. python_bridge E h s = Inr s' \<and> trace_grows s s'"
proof -
  from assms obtain path where p:
    "strcat_s (MAX_PATH E) (Util_GetPathDll E h) ''python3.dll'' = Some path"
    by (simp add: strcat_s_def)
  obtain h3 s1 where l1: "LoadLibraryExA E path LOAD_WITH_ALTERED_SEARCH_PATH s = (h3, s1)"
    by (cases "LoadLibraryExA E path LOAD_WITH_ALTERED_SEARCH_PATH s")
  obtain hp s2 where l2: "LoadLibraryA E ''vmmpycplugin.dll'' s1 = (hp, s2)"
    by (cases "LoadLibraryA E ''vmmpycplugin.dll'' s1")
  have "trace_grows s s1"
    using arg_cong [OF l1, of snd, symmetric] by simp
  moreover have "trace_grows s1 s2"
    using arg_cong [OF l2, of snd, symmetric] by simp
  ultimately have g2: "trace_grows s s2"
    by (rule trace_grows_trans)
  have fail: "trace_grows s (python_fail a b c s2)" for a b c
    using g2 python_fail_frame(2) by (rule trace_grows_trans)
  have run: "trace_grows s (run_init E q s2)" for q
    using g2 run_init_frame [of E q s2] by (blast intro: trace_grows_trans)
  have run_free: "trace_grows s (FreeLibrary x (run_init E q s2))" for q x
    using run trace_grows_os(4) by (rule trace_grows_trans)
  show ?thesis
    unfolding python_bridge_def p option.case l1 l2 prod.case
    by (auto simp: Let_def fail run run_free split: option.splits)
qed

lemma Initialize_Python_returns:
  assumes U: "\<forall>h. length (Util_GetPathDll E h) + 19 < MAX_PATH E"
    and cfg: "length (Util_GetPathDll E None) + 7 < countof_cfg_szPythonPath E"
    and user: "length (szPythonPath s) + 13 < MAX_PATH E"
  shows "\<exists>s'. PluginManager_Initialize_Python E s = Inr s' \<and> trace_grows s s'"
proof -
  let ?r1 = "if szPythonPath s \<noteq> []
            then load_versions_ex E (user_path_dll E (szPythonPath s))
                   szPYTHON_VERSIONS_SUPPORTED s
            else Inr (None, s)"
  have "\<forall>v\<in>set szPYTHON_VERSIONS_SUPPORTED. user_path_dll E (szPythonPath s) v \<noteq> None"
    using user by (simp add: user_path_dll_fits version_name_length)
  then have "\<exists>h s'. ?r1 = Inr (h, s')"
    using load_versions_ex_returns
      [where build = "user_path_dll E (szPythonPath s)" and vs = szPYTHON_VERSIONS_SUPPORTED]
    by simp
  then obtain h1 s1 where r1: "?r1 = Inr (h1, s1)" by blast
  have "case ?r1 of Inl f \<Rightarrow> True
      | Inr (h, s') \<Rightarrow> szPythonPath s' = szPythonPath s \<and> trace_grows s s'"
    using load_versions_ex_frame [where E = E and build = "user_path_dll E (szPythonPath s)"
        and vs = szPYTHON_VERSIONS_SUPPORTED and s = s]
    by (auto split: sum.splits fatal.splits)
  then have f1: "szPythonPath s1 = szPythonPath s" "trace_grows s s1"
    unfolding r1 by simp_all
  show ?thesis
  proof (cases "szPythonPath s \<noteq> [] \<and> h1 = None")
    case True
    then show ?thesis
      unfolding PluginManager_Initialize_Python_def r1 using f1 by simp
  next
    case False
    have "\<forall>v\<in>set szPYTHON_VERSIONS_SUPPORTED. exe_path_dll E v \<noteq> None"
      using U by (simp add: exe_path_dll_fits version_name_length)
    then obtain hx sx where lx:
      "load_versions_ex E (exe_path_dll E) szPYTHON_VERSIONS_SUPPORTED s1 = Inr (hx, sx)"
      using load_versions_ex_returns [where build = "exe_path_dll E"
          and vs = szPYTHON_VERSIONS_SUPPORTED and E = E and s = s1]
      by blast
    obtain path where cp: "strcat_s (countof_cfg_szPythonPath E) (Util_GetPathDll E None)
        (''python'' @ backslash) = Some path"
      using cfg by (simp add: strcat_s_def backslash_def)
    have "\<exists>h2 s2. python_locate_exe E h1 s1 = Inr (h2, s2)"
      unfolding python_locate_exe_def lx cp by (cases hx) simp_all
    then obtain h2 s2 where exe: "python_locate_exe E h1 s1 = Inr (h2, s2)" by blast
    have g2: "trace_grows s1 s2"
      using python_locate_exe_frame [where E = E and h = h1 and s = s1] unfolding exe by simp
    obtain h3 s3 where srch: "python_locate_search E h2 s2 = (h3, s3)"
      by (cases "python_locate_search E h2 s2")
    have g3: "trace_grows s2 s3"
      using python_locate_search_frame [where E = E and h = h2 and s = s2] srch by simp
    have g: "trace_grows s s3"
      using f1(2) g2 g3 by (blast intro: trace_grows_trans)
    have fail: "trace_grows s (python_fail None h3 None s3)"
      using g python_fail_frame(2) by (rule trace_grows_trans)
    have "length (Util_GetPathDll E h3) + 11 < MAX_PATH E"
      using U [rule_format, of h3] by simp
    then obtain s4 where br: "python_bridge E h3 s3 = Inr s4" "trace_grows s3 s4"
      using python_bridge_returns by blast
    have "trace_grows s s4"
      using g br(2) by (rule trace_grows_trans)
    then show ?thesis
      unfolding PluginManager_Initialize_Python_def r1
      using False fail f1 by (simp add: exe srch br(1))
  qed
qed

lemma Initialize_dlls_step:
  assumes "Option.bind (strcat_s (MAX_PATH E) (take cch szPath) (''plugins'' @ backslash))
             (\<lambda>b. strcat_s (MAX_PATH E) b cFileName) = Some path"
  shows "\<exists>c es. Initialize_dlls E cch szPath (cFileName # others) s
             = Initialize_dlls E cch path others c
           \<and> trace c = trace s @ EvLoadLibrary path (os_LoadLibraryExA E path 0) # es
           \<and> szPythonPath c = szPythonPath s"
proof -
  let ?h = "os_LoadLibraryExA E path 0"
  let ?s1 = "record_event (EvLoadLibrary path ?h) s"
  have l: "LoadLibraryExA E path 0 s = (?h, ?s1)"
    by (simp add: LoadLibraryExA_def Let_def)
  have t1: "trace ?s1 = trace s @ [EvLoadLibrary path ?h]" "szPythonPath ?s1 = szPythonPath s"
    by (simp_all add: record_event_def)
  have run: "\<exists>es. trace (run_init E q ?s1) = trace s @ EvLoadLibrary path ?h # es
      \<and> szPythonPath (run_init E q ?s1) = szPythonPath s" for q
    using run_init_frame [of E q ?s1] t1 by (auto simp: trace_grows_def)
  have free: "\<exists>es. trace (FreeLibrary x c) = trace s @ EvLoadLibrary path ?h # es
      \<and> szPythonPath (FreeLibrary x c) = szPythonPath s"
    if "\<exists>es. trace c = trace s @ EvLoadLibrary path ?h # es \<and> szPythonPath c = szPythonPath s"
    for x c
    using that by (auto simp: FreeLibrary_def record_event_def)
  have base: "\<exists>es. trace ?s1 = trace s @ EvLoadLibrary path ?h # es
      \<and> szPythonPath ?s1 = szPythonPath s"
    using t1 by simp
  show ?thesis
  proof (cases ?h)
    case None
    have "Initialize_dlls E cch szPath (cFileName # others) s
        = Initialize_dlls E cch path others ?s1"
      unfolding Initialize_dlls.simps assms option.case l by (simp add: None)
    with base show ?thesis by blast
  next
    case (Some h)
    show ?thesis
    proof (cases "os_GetProcAddress E h ''InitializeVmmPlugin''")
      case None
      have "Initialize_dlls E cch szPath (cFileName # others) s
          = Initialize_dlls E cch path others (FreeLibrary h ?s1)"
        unfolding Initialize_dlls.simps assms option.case l by (simp add: Some None)
      with free [OF base] show ?thesis by blast
    next
      case entry: (Some pfn)
      let ?s2 = "run_init E (pfn (PluginManager_Initialize_RegInfoInit E (Some h) ?s1)) ?s1"
      show ?thesis
      proof (cases "PluginManager_ModuleExists (Some h) None ?s2")
        case True
        have "Initialize_dlls E cch szPath (cFileName # others) s
            = Initialize_dlls E cch path others ?s2"
          unfolding Initialize_dlls.simps assms option.case l
          using True by (simp add: Some entry Let_def)
        with run show ?thesis by blast
      next
        case False
        have "Initialize_dlls E cch szPath (cFileName # others) s
            = Initialize_dlls E cch path others (FreeLibrary h ?s2)"
          unfolding Initialize_dlls.simps assms option.case l
          using False by (simp add: Some entry Let_def)
        with free [OF run] show ?thesis by blast
      qed
    qed
  qed
qed

lemma Initialize_dlls_returns:
  assumes "\<forall>f\<in>set found. length base + 8 + length f < MAX_PATH E"
    and "take (length base) szPath = base"
  shows "\<exists>s2 es. Initialize_dlls E (length base) szPath found s = Inr s2
           \<and> trace s2 = trace s @ es
           \<and> szPythonPath s2 = szPythonPath s
           \<and> (\<forall>f\<in>set found.
                EvLoadLibrary (base @ ''plugins'' @ backslash @ f)
                  (os_LoadLibraryExA E (base @ ''plugins'' @ backslash @ f) 0) \<in> set es)"
  using assms
proof (induction found arbitrary: s szPath)
  case Nil
  then show ?case by simp
next
  case (Cons f fs)
  let ?path = "base @ ''plugins'' @ backslash @ f"
  have "length base + 8 + length f < MAX_PATH E"
    using Cons.prems(1) by simp
  then have b: "Option.bind (strcat_s (MAX_PATH E) (take (length base) szPath)
        (''plugins'' @ backslash)) (\<lambda>b. strcat_s (MAX_PATH E) b f) = Some ?path"
    by (simp add: Cons.prems(2) strcat_s_def backslash_def)
  obtain c es where c: "Initialize_dlls E (length base) szPath (f # fs) s
             = Initialize_dlls E (length base) ?path fs c"
    "trace c = trace s @ EvLoadLibrary ?path (os_LoadLibraryExA E ?path 0) # es"
    "szPythonPath c = szPythonPath s"
    using Initialize_dlls_step [OF b] by blast
  have "\<forall>f\<in>set fs. length base + 8 + length f < MAX_PATH E"
    using Cons.prems(1) by simp
  moreover have "take (length base) ?path = base" by simp
  ultimately obtain s2 es' where r: "Initialize_dlls E (length base) ?path fs c = Inr s2"
    "trace s2 = trace c @ es'" "szPythonPath s2 = szPythonPath c"
    "\<forall>f\<in>set fs. EvLoadLibrary (base @ ''plugins'' @ backslash @ f)
        (os_LoadLibraryExA E (base @ ''plugins'' @ backslash @ f) 0) \<in> set es'"
    using Cons.IH [of ?path c] by blast
  have "trace s2 = trace s @ (EvLoadLibrary ?path (os_LoadLibraryExA E ?path 0) # es @ es')"
    using r(2) c(2) by simp
  moreover have "\<forall>g\<in>set (f # fs). EvLoadLibrary (base @ ''plugins'' @ backslash @ g)
        (os_LoadLibraryExA E (base @ ''plugins'' @ backslash @ g) 0)
      \<in> set (EvLoadLibrary ?path (os_LoadLibraryExA E ?path 0) # es @ es')"
    using r(4) by auto
  ultimately show ?case
    using c(1) c(3) r(1) r(3) by (metis (no_types, lifting))
qed

lemma Initialize_builtin_frame:
  "szPythonPath (Initialize_builtin E inits s) = szPythonPath s
   \<and> trace_grows s (Initialize_builtin E inits s)"
proof (induction inits arbitrary: s)
  case Nil
  then show ?case by simp
next
  case (Cons i inits)
  let ?s1 = "run_init E (i (PluginManager_Initialize_RegInfoInit E None s)) s"
  have "szPythonPath ?s1 = szPythonPath s" "trace_grows s ?s1"
    using run_init_frame [of E "i (PluginManager_Initialize_RegInfoInit E None s)" s]
    by simp_all
  with Cons.IH [of ?s1] show ?case
    by (auto intro: trace_grows_trans)
qed


lemma Initialize_returns_only_true:
  "pVmmVfsModuleList s = [] \<Longrightarrow> PluginManager_Initialize E s = Inr (result, s') \<Longrightarrow> result"
  by (auto simp: PluginManager_Initialize_def Let_def split: option.splits sum.splits)

lemma Initialize_runs:
  assumes empty: "pVmmVfsModuleList s = []" and fit: "bringup_paths_fit E s"
  shows "\<exists>s2 s3.
      Initialize_dlls E (length (Util_GetPathDll E None))
        (Util_GetPathDll E None @ ''plugins'' @ backslash @ ''m_*.dll'')
        (os_FindFiles E (Util_GetPathDll E None @ ''plugins'' @ backslash @ ''m_*.dll''))
        (Initialize_builtin E (builtin_initializers E) s) = Inr s2
      \<and> PluginManager_Initialize_Python E s2 = Inr s3
      \<and> PluginManager_Initialize E s = Inr (True, s3)
      \<and> trace_grows s s3
      \<and> (\<forall>cFileName\<in>set (os_FindFiles E
                             (Util_GetPathDll E None @ ''plugins'' @ backslash @ ''m_*.dll'')).
            EvLoadLibrary (Util_GetPathDll E None @ ''plugins'' @ backslash @ cFileName)
              (os_LoadLibraryExA E
                 (Util_GetPathDll E None @ ''plugins'' @ backslash @ cFileName) 0)
            \<in> set (new_events s s3))"
proof -
  let ?base = "Util_GetPathDll E None"
  let ?szPath = "?base @ ''plugins'' @ backslash @ ''m_*.dll''"
  let ?found = "os_FindFiles E ?szPath"
  let ?s1 = "Initialize_builtin E (builtin_initializers E) s"
  from fit have U: "\<forall>h. length (Util_GetPathDll E h) + 19 < MAX_PATH E"
    and cfg: "length ?base + 7 < countof_cfg_szPythonPath E"
    and user: "length (szPythonPath s) + 13 < MAX_PATH E"
    and files: "\<forall>f\<in>set ?found. length ?base + 8 + length f < MAX_PATH E"
    unfolding bringup_paths_fit_def by blast+
  have base: "length ?base + 19 < MAX_PATH E"
    using U by blast
  then have pat: "strcat_s (MAX_PATH E) ?base (''plugins'' @ backslash @ ''m_*.dll'') = Some ?szPath"
    by (simp add: strcat_s_def backslash_def)
  have cch: "strnlen ?base (MAX_PATH E - 1) = length ?base"
    using base by (simp add: strnlen_def)
  have b1: "szPythonPath ?s1 = szPythonPath s" "trace_grows s ?s1"
    using Initialize_builtin_frame [of E "builtin_initializers E" s] by simp_all
  have "take (length ?base) ?szPath = ?base" by simp
  with files obtain s2 es where d: "Initialize_dlls E (length ?base) ?szPath ?found ?s1 = Inr s2"
    "trace s2 = trace ?s1 @ es" "szPythonPath s2 = szPythonPath ?s1"
    "\<forall>f\<in>set ?found. EvLoadLibrary (?base @ ''plugins'' @ backslash @ f)
        (os_LoadLibraryExA E (?base @ ''plugins'' @ backslash @ f) 0) \<in> set es"
    using Initialize_dlls_returns [where base = ?base and szPath = ?szPath and found = ?found
        and E = E and s = ?s1]
    by blast
  have "length (szPythonPath s2) + 13 < MAX_PATH E"
    using user d(3) b1(1) by simp
  with U cfg obtain s3 where py: "PluginManager_Initialize_Python E s2 = Inr s3"
    "trace_grows s2 s3"
    using Initialize_Python_returns by blast
  have init: "PluginManager_Initialize E s = Inr (True, s3)"
    unfolding PluginManager_Initialize_def Let_def pat cch option.case d(1) sum.case py(1)
    using empty by simp
  obtain e0 where e0: "trace ?s1 = trace s @ e0"
    using b1(2) by (auto simp: trace_grows_def)
  obtain e3 where e3: "trace s3 = trace s2 @ e3"
    using py(2) by (auto simp: trace_grows_def)
  have tr: "trace s3 = trace s @ (e0 @ es @ e3)"
    using e0 d(2) e3 by simp
  then have new: "new_events s s3 = e0 @ es @ e3"
    by (simp add: new_events_def)
  have "trace_grows s s3"
    using tr by (auto simp: trace_grows_def)
  moreover have "\<forall>f\<in>set ?found. EvLoadLibrary (?base @ ''plugins'' @ backslash @ f)
        (os_LoadLibraryExA E (?base @ ''plugins'' @ backslash @ f) 0) \<in> set (new_events s s3)"
    using d(4) unfolding new by simp
  ultimately show ?thesis
    using d(1) py(1) init by blast
qed


lemma sample_plugins_fit: "bringup_paths_fit sample_extern_plugins sample_state"
  by (simp add: bringup_paths_fit_def sample_extern_plugins_def sample_extern_builtin_def
      sample_extern_def sample_state_def backslash_def)

lemma sample_plugins_bringup:
  "PluginManager_Initialize sample_extern_plugins sample_state =
     Inr (True, sample_state
        \<lparr> pVmmVfsModuleList := [entry_A],
          trace := [EvLocalAlloc True,
                    EvLoadLibrary (''C:'' @ backslash @ ''plugins'' @ backslash @ ''m_x.dll'') None,
                    EvLoadLibrary (''C:'' @ backslash @ ''python'' @ backslash @ ''python36.dll'') None,
                    EvLoadLibrary (''C:'' @ backslash @ ''python'' @ backslash @ ''python37.dll'') None,
                    EvLoadLibrary (''C:'' @ backslash @ ''python'' @ backslash @ ''python38.dll'') None,
                    EvLoadLibrary ''python36.dll'' None,
                    EvLoadLibrary ''python37.dll'' None,
                    EvLoadLibrary ''python38.dll'' None] \<rparr>)"
  by (simp add: PluginManager_Initialize_def builtin_initializers_def
      PluginManager_Initialize_Python_def python_bridge_def python_fail_def
      python_locate_exe_def python_locate_search_def exe_path_dll_def user_path_dll_def
      strcat_s_def strcpy_s_def strnlen_def
      sample_extern_plugins_def sample_extern_builtin_def sample_extern_def sample_state_def
      szPYTHON_VERSIONS_SUPPORTED_def LoadLibraryExA_def LoadLibraryA_def FreeLibrary_def
      record_event_def backslash_def PluginManager_ModuleExists_def
      PluginManager_Initialize_RegInfoInit_def Let_def PluginManager_Register_def
      first_unit_nonzero_def wcslen_def wcs_def LocalAlloc_def new_entry_def entry_A_def)

lemma sample_empty_bringup:
  "PluginManager_Initialize sample_extern sample_state =
     Inr (True, sample_state
        \<lparr> trace := [EvLoadLibrary (''C:'' @ backslash @ ''python'' @ backslash @ ''python36.dll'') None,
                    EvLoadLibrary (''C:'' @ backslash @ ''python'' @ backslash @ ''python37.dll'') None,
                    EvLoadLibrary (''C:'' @ backslash @ ''python'' @ backslash @ ''python38.dll'') None,
                    EvLoadLibrary ''python36.dll'' None,
                    EvLoadLibrary ''python37.dll'' None,
                    EvLoadLibrary ''python38.dll'' None] \<rparr>)"
  by (simp add: PluginManager_Initialize_def builtin_initializers_def
      PluginManager_Initialize_Python_def python_bridge_def python_fail_def
      python_locate_exe_def python_locate_search_def exe_path_dll_def user_path_dll_def
      strcat_s_def strcpy_s_def strnlen_def
      sample_extern_def sample_state_def
      szPYTHON_VERSIONS_SUPPORTED_def LoadLibraryExA_def LoadLibraryA_def FreeLibrary_def
      record_event_def backslash_def Let_def)



end
